theory Spec2Isabelle
  imports Complex_Main "HOL-Library.Word"
begin

section \<open>JavaScript values\<close>

text \<open>
  A JavaScript string is a sequence of 16-bit code units; a byte of a \<open>Uint8Array\<close> is an
  8-bit word. The values \<open>chrome.storage\<close> holds are JSON values; a key that is not in the
  store reads as \<open>undefined\<close>, which is \<open>None\<close> below.
\<close>

type_synonym byte = "8 word"
type_synonym jsstring = "16 word list"

definition ascii :: "string \<Rightarrow> jsstring" where
  "ascii s = map of_char s"

datatype jsval =
    JNull
  | JBool bool
  | JNum rat
  | JStr jsstring
  | JArr "jsval list"
  | JObj "(jsstring \<times> jsval) list"

text \<open>\<open>ToBoolean\<close>, as \<open>if (x)\<close> and \<open>!x\<close> apply it.\<close>

fun truthy :: "jsval option \<Rightarrow> bool" where
  "truthy None = False"
| "truthy (Some JNull) = False"
| "truthy (Some (JBool b)) = b"
| "truthy (Some (JNum r)) = (r \<noteq> 0)"
| "truthy (Some (JStr s)) = (s \<noteq> [])"
| "truthy (Some (JArr xs)) = True"
| "truthy (Some (JObj kvs)) = True"

datatype exn = StorageError | DataError | OperationError | TypeError | RangeError

datatype cryptokey = CryptoKey (raw: "byte list")

section \<open>The platform\<close>

text \<open>
  What the browser supplies and the repository does not contain: the extension's own id, the
  random number generator, AES-GCM, and the conversions \<open>new Uint8Array(v)\<close> performs on a
  value that is not an array of numbers (\<open>exotic\<close>). They are parameters of the model.
\<close>

record platform =
  runtime_id :: jsstring
  entropy :: "nat \<Rightarrow> byte"
  aes_gcm_encrypt :: "cryptokey \<Rightarrow> byte list \<Rightarrow> byte list \<Rightarrow> exn + byte list"
  aes_gcm_decrypt :: "cryptokey \<Rightarrow> byte list \<Rightarrow> byte list \<Rightarrow> exn + byte list"
  exotic :: "jsval \<Rightarrow> exn + byte list"

text \<open>
  The world a call runs in: the two storage areas, the outcomes of the coming storage calls
  (\<open>True\<close>: the call rejects; an empty list: none does), how many random bytes have been
  drawn, and the storage calls made so far.
\<close>

datatype storage_call =
    LocalGet "string list"
  | LocalSet "string list"
  | LocalRemove "string list"
  | SessionGet "string list"
  | SessionSet "string list"
  | SessionRemove "string list"

record world =
  storage_local :: "string \<rightharpoonup> jsval"
  storage_session :: "string \<rightharpoonup> jsval"
  faults :: "bool list"
  drawn :: nat
  calls :: "storage_call list"

definition rejects :: "world \<Rightarrow> bool" where
  "rejects w = (case faults w of [] \<Rightarrow> False | f # fs \<Rightarrow> f)"

definition called :: "storage_call \<Rightarrow> world \<Rightarrow> world" where
  "called c w = w\<lparr>faults := tl (faults w), calls := calls w @ [c]\<rparr>"

text \<open>
  \<open>chrome.storage.local.get(keys)\<close> resolves to an object holding the stored ones of the
  keys asked for; \<open>set(items)\<close> writes all items in one call; \<open>remove(keys)\<close> deletes the
  keys. A call that rejects leaves the area as it was.
\<close>

definition local_get :: "string list \<Rightarrow> world \<Rightarrow> (exn + (string \<rightharpoonup> jsval)) \<times> world" where
  "local_get ks w =
     (if rejects w then (Inl StorageError, called (LocalGet ks) w)
      else (Inr (storage_local w |` set ks), called (LocalGet ks) w))"

definition local_set :: "(string \<times> jsval) list \<Rightarrow> world \<Rightarrow> (exn + unit) \<times> world" where
  "local_set items w =
     (if rejects w then (Inl StorageError, called (LocalSet (map fst items)) w)
      else (Inr (), (called (LocalSet (map fst items)) w)
                      \<lparr>storage_local := storage_local w ++ map_of (rev items)\<rparr>))"

definition local_remove :: "string list \<Rightarrow> world \<Rightarrow> (exn + unit) \<times> world" where
  "local_remove ks w =
     (if rejects w then (Inl StorageError, called (LocalRemove ks) w)
      else (Inr (), (called (LocalRemove ks) w)
                      \<lparr>storage_local := storage_local w |` (- set ks)\<rparr>))"

definition session_get :: "string list \<Rightarrow> world \<Rightarrow> (exn + (string \<rightharpoonup> jsval)) \<times> world" where
  "session_get ks w =
     (if rejects w then (Inl StorageError, called (SessionGet ks) w)
      else (Inr (storage_session w |` set ks), called (SessionGet ks) w))"

definition session_set :: "(string \<times> jsval) list \<Rightarrow> world \<Rightarrow> (exn + unit) \<times> world" where
  "session_set items w =
     (if rejects w then (Inl StorageError, called (SessionSet (map fst items)) w)
      else (Inr (), (called (SessionSet (map fst items)) w)
                      \<lparr>storage_session := storage_session w ++ map_of (rev items)\<rparr>))"

definition session_remove :: "string list \<Rightarrow> world \<Rightarrow> (exn + unit) \<times> world" where
  "session_remove ks w =
     (if rejects w then (Inl StorageError, called (SessionRemove ks) w)
      else (Inr (), (called (SessionRemove ks) w)
                      \<lparr>storage_session := storage_session w |` (- set ks)\<rparr>))"

subsection \<open>Typed arrays and raw AES keys\<close>

text \<open>
  \<open>ToUint8\<close>: truncate towards zero, then modulo 256 (the conversion into the word wraps).
\<close>

definition ToUint8 :: "rat \<Rightarrow> byte" where
  "ToUint8 r = of_int (if 0 \<le> r then \<lfloor>r\<rfloor> else \<lceil>r\<rceil>)"

fun numbers_of :: "jsval list \<Rightarrow> rat list option" where
  "numbers_of [] = Some []"
| "numbers_of (JNum r # xs) = map_option ((#) r) (numbers_of xs)"
| "numbers_of (x # xs) = None"

text \<open>\<open>new Uint8Array(v)\<close>; \<open>new Uint8Array(undefined)\<close> is the empty array.\<close>

definition new_Uint8Array :: "platform \<Rightarrow> jsval option \<Rightarrow> exn + byte list" where
  "new_Uint8Array P v =
     (case v of
        None \<Rightarrow> Inr []
      | Some (JArr xs) \<Rightarrow>
          (case numbers_of xs of
             Some rs \<Rightarrow> Inr (map ToUint8 rs)
           | None \<Rightarrow> exotic P (JArr xs))
      | Some x \<Rightarrow> exotic P x)"

text \<open>\<open>Array.from(new Uint8Array(buffer))\<close>: the bytes as an array of numbers.\<close>

definition Array_from :: "byte list \<Rightarrow> jsval" where
  "Array_from bs = JArr (map (\<lambda>b. JNum (of_nat (unat b))) bs)"

text \<open>
  \<open>crypto.subtle.importKey('raw', data, {name: 'AES-GCM', length: 256}, true, ...)\<close>: a raw
  AES key has 128, 192 or 256 bits, otherwise the import throws a \<open>DataError\<close>.
\<close>

definition importKey :: "byte list \<Rightarrow> exn + cryptokey" where
  "importKey data =
     (if length data = 16 \<or> length data = 24 \<or> length data = 32
      then Inr (CryptoKey data) else Inl DataError)"

definition getRandomValues :: "platform \<Rightarrow> nat \<Rightarrow> world \<Rightarrow> byte list \<times> world" where
  "getRandomValues P n w = (map (entropy P) [drawn w ..< drawn w + n], w\<lparr>drawn := drawn w + n\<rparr>)"

text \<open>
  \<open>crypto.subtle.generateKey({name: 'AES-GCM', length: 256}, true, ...)\<close>: 32 fresh random
  bytes; \<open>exportKey('raw', key)\<close> gives them back, the key being extractable.
\<close>

definition generateKey :: "platform \<Rightarrow> world \<Rightarrow> cryptokey \<times> world" where
  "generateKey P w = (case getRandomValues P 32 w of (bs, w') \<Rightarrow> (CryptoKey bs, w'))"

definition exportKey :: "cryptokey \<Rightarrow> byte list" where
  "exportKey k = raw k"

subsection \<open>TextEncoder and TextDecoder\<close>

text \<open>
  \<open>new TextEncoder().encode(s)\<close> converts the string to scalar values (a surrogate pair is
  one code point, an unpaired surrogate becomes U+FFFD) and writes them as UTF-8.
  \<open>new TextDecoder().decode(bytes)\<close> runs the UTF-8 decoder of the Encoding Standard in
  replacement mode, drops one leading U+FEFF (\<open>ignoreBOM\<close> is false by default) and
  writes the code points as UTF-16 code units.
\<close>

definition is_lead :: "16 word \<Rightarrow> bool" where
  "is_lead u = (0xD800 \<le> u \<and> u \<le> 0xDBFF)"

definition is_trail :: "16 word \<Rightarrow> bool" where
  "is_trail u = (0xDC00 \<le> u \<and> u \<le> 0xDFFF)"

fun code_points :: "jsstring \<Rightarrow> nat list" where
  "code_points [] = []"
| "code_points [u] = (if is_lead u \<or> is_trail u then [0xFFFD] else [unat u])"
| "code_points (u # v # us) =
     (if is_lead u \<and> is_trail v
      then (0x10000 + (unat u - 0xD800) * 0x400 + (unat v - 0xDC00)) # code_points us
      else if is_lead u \<or> is_trail u then 0xFFFD # code_points (v # us)
      else unat u # code_points (v # us))"

definition utf8_encode :: "nat \<Rightarrow> nat list" where
  "utf8_encode cp =
     (if cp < 0x80 then [cp]
      else if cp < 0x800 then [0xC0 + cp div 0x40, 0x80 + cp mod 0x40]
      else if cp < 0x10000 then
        [0xE0 + cp div 0x1000, 0x80 + cp div 0x40 mod 0x40, 0x80 + cp mod 0x40]
      else
        [0xF0 + cp div 0x40000, 0x80 + cp div 0x1000 mod 0x40,
         0x80 + cp div 0x40 mod 0x40, 0x80 + cp mod 0x40])"

definition TextEncoder_encode :: "jsstring \<Rightarrow> byte list" where
  "TextEncoder_encode s = map of_nat (concat (map utf8_encode (code_points s)))"

record utf8_decoder =
  code_point :: nat
  bytes_seen :: nat
  bytes_needed :: nat
  lower_boundary :: nat
  upper_boundary :: nat

definition utf8_initial :: utf8_decoder where
  "utf8_initial = \<lparr>code_point = 0, bytes_seen = 0, bytes_needed = 0,
                   lower_boundary = 0x80, upper_boundary = 0xBF\<rparr>"

function utf8_decode :: "utf8_decoder \<Rightarrow> nat list \<Rightarrow> nat list" where
  "utf8_decode d [] = (if bytes_needed d \<noteq> 0 then [0xFFFD] else [])"
| "utf8_decode d (b # bs) =
     (if bytes_needed d = 0 then
        (if b \<le> 0x7F then b # utf8_decode d bs
         else if 0xC2 \<le> b \<and> b \<le> 0xDF then
           utf8_decode (d\<lparr>bytes_needed := 1, code_point := b mod 0x20\<rparr>) bs
         else if 0xE0 \<le> b \<and> b \<le> 0xEF then
           utf8_decode (d\<lparr>lower_boundary := (if b = 0xE0 then 0xA0 else lower_boundary d),
                           upper_boundary := (if b = 0xED then 0x9F else upper_boundary d),
                           bytes_needed := 2, code_point := b mod 0x10\<rparr>) bs
         else if 0xF0 \<le> b \<and> b \<le> 0xF4 then
           utf8_decode (d\<lparr>lower_boundary := (if b = 0xF0 then 0x90 else lower_boundary d),
                           upper_boundary := (if b = 0xF4 then 0x8F else upper_boundary d),
                           bytes_needed := 3, code_point := b mod 0x8\<rparr>) bs
         else 0xFFFD # utf8_decode d bs)
      else if b < lower_boundary d \<or> upper_boundary d < b then
        0xFFFD # utf8_decode utf8_initial (b # bs)
      else
        (let cp = code_point d * 0x40 + b mod 0x40 in
         if bytes_seen d + 1 \<noteq> bytes_needed d then
           utf8_decode (d\<lparr>lower_boundary := 0x80, upper_boundary := 0xBF,
                           code_point := cp, bytes_seen := bytes_seen d + 1\<rparr>) bs
         else cp # utf8_decode utf8_initial bs))"
  by pat_completeness auto
termination
  by (relation "measure (\<lambda>(d, bs). 2 * length bs + (if bytes_needed d = 0 then 0 else 1))")
     (auto simp: utf8_initial_def)

definition strip_bom :: "nat list \<Rightarrow> nat list" where
  "strip_bom cps = (case cps of [] \<Rightarrow> [] | c # cs \<Rightarrow> if c = 0xFEFF then cs else c # cs)"

definition utf16_units :: "nat \<Rightarrow> 16 word list" where
  "utf16_units cp =
     (if cp < 0x10000 then [of_nat cp]
      else [of_nat (0xD800 + (cp - 0x10000) div 0x400), of_nat (0xDC00 + (cp - 0x10000) mod 0x400)])"

definition TextDecoder_decode :: "byte list \<Rightarrow> jsstring" where
  "TextDecoder_decode bs =
     concat (map utf16_units (strip_bom (utf8_decode utf8_initial (map unat bs))))"

section \<open>CredentialManager (the popup's vault)\<close>

definition CredentialManager_STORAGE_KEY_COMPANY :: string where
  "CredentialManager_STORAGE_KEY_COMPANY = ''kinrou_company_code''"

definition CredentialManager_STORAGE_KEY_EMPLOYEE :: string where
  "CredentialManager_STORAGE_KEY_EMPLOYEE = ''kinrou_employee_code''"

definition CredentialManager_STORAGE_KEY_PASSWORD :: string where
  "CredentialManager_STORAGE_KEY_PASSWORD = ''kinrou_encrypted_password''"

definition CredentialManager_STORAGE_KEY_IV :: string where
  "CredentialManager_STORAGE_KEY_IV = ''kinrou_password_iv''"

definition CredentialManager_SESSION_KEY_CRYPTO :: string where
  "CredentialManager_SESSION_KEY_CRYPTO = ''kinrou_crypto_key''"

record saved_codes =
  companyCode :: jsval
  employeeCode :: jsval

record credential = saved_codes +
  password :: jsstring

text \<open>
  The objects \<open>get\<close> and \<open>getSavedCodes\<close> return are the records above; a primed name
  (\<open>companyCode'\<close>, \<open>password'\<close>) is the source's variable of that name.

  \<open>\d\<close> in a regular expression without flags is an ASCII digit.
\<close>

definition is_digit :: "16 word \<Rightarrow> bool" where
  "is_digit c = (0x30 \<le> c \<and> c \<le> 0x39)"

text \<open>\<open>/^\d{1,5}$/.test(companyCode)\<close>: the whole string is one to five digits.\<close>

definition isValidCompanyCode :: "jsstring \<Rightarrow> bool" where
  "isValidCompanyCode companyCode' =
     (1 \<le> length companyCode' \<and> length companyCode' \<le> 5 \<and> list_all is_digit companyCode')"

text \<open>\<open>/^\d{1,10}$/.test(employeeCode)\<close>.\<close>

definition isValidEmployeeCode :: "jsstring \<Rightarrow> bool" where
  "isValidEmployeeCode employeeCode' =
     (1 \<le> length employeeCode' \<and> length employeeCode' \<le> 10 \<and> list_all is_digit employeeCode')"

definition CredentialManager_getOrCreateCryptoKey ::
    "platform \<Rightarrow> world \<Rightarrow> (exn + cryptokey) \<times> world" where
  "CredentialManager_getOrCreateCryptoKey P w =
     (case session_get [CredentialManager_SESSION_KEY_CRYPTO] w of
        (Inl e, w1) \<Rightarrow> (Inl e, w1)
      | (Inr result, w1) \<Rightarrow>
          (let storedKey = result CredentialManager_SESSION_KEY_CRYPTO in
           if truthy storedKey then
             (case new_Uint8Array P storedKey of
                Inl e \<Rightarrow> (Inl e, w1)
              | Inr data \<Rightarrow> (importKey data, w1))
           else
             (case generateKey P w1 of
                (key, w2) \<Rightarrow>
                  (let exportedKey = exportKey key in
                   case session_set
                          [(CredentialManager_SESSION_KEY_CRYPTO, Array_from exportedKey)] w2 of
                     (Inl e, w3) \<Rightarrow> (Inl e, w3)
                   | (Inr u, w3) \<Rightarrow> (Inr key, w3)))))"

definition CredentialManager_getCryptoKey ::
    "platform \<Rightarrow> world \<Rightarrow> (exn + cryptokey option) \<times> world" where
  "CredentialManager_getCryptoKey P w =
     (case session_get [CredentialManager_SESSION_KEY_CRYPTO] w of
        (Inl e, w1) \<Rightarrow> (Inl e, w1)
      | (Inr result, w1) \<Rightarrow>
          (let storedKey = result CredentialManager_SESSION_KEY_CRYPTO in
           if \<not> truthy storedKey then (Inr None, w1)
           else
             (case new_Uint8Array P storedKey of
                Inl e \<Rightarrow> (Inl e, w1)
              | Inr data \<Rightarrow> (map_sum id Some (importKey data), w1))))"

definition CredentialManager_encryptPassword ::
    "platform \<Rightarrow> jsstring \<Rightarrow> cryptokey \<Rightarrow> world \<Rightarrow> (exn + jsval \<times> jsval) \<times> world" where
  "CredentialManager_encryptPassword P password' key w =
     (let data = TextEncoder_encode password' in
      case getRandomValues P 12 w of
        (iv, w1) \<Rightarrow>
          (case aes_gcm_encrypt P key iv data of
             Inl e \<Rightarrow> (Inl e, w1)
           | Inr encrypted \<Rightarrow> (Inr (Array_from encrypted, Array_from iv), w1)))"

definition CredentialManager_decryptPassword ::
    "platform \<Rightarrow> jsval option \<Rightarrow> jsval option \<Rightarrow> cryptokey \<Rightarrow> exn + jsstring" where
  "CredentialManager_decryptPassword P encryptedData iv key =
     (case new_Uint8Array P iv of
        Inl e \<Rightarrow> Inl e
      | Inr ivBytes \<Rightarrow>
          (case new_Uint8Array P encryptedData of
             Inl e \<Rightarrow> Inl e
           | Inr dataBytes \<Rightarrow>
               (case aes_gcm_decrypt P key ivBytes dataBytes of
                  Inl e \<Rightarrow> Inl e
                | Inr decrypted \<Rightarrow> Inr (TextDecoder_decode decrypted))))"

text \<open>
  \<open>save\<close>: the three validations return \<open>false\<close> before anything else happens; whatever is
  thrown after them is caught and turned into \<open>false\<close>.
\<close>

definition CredentialManager_save ::
    "platform \<Rightarrow> jsstring \<Rightarrow> jsstring \<Rightarrow> jsstring \<Rightarrow> world \<Rightarrow> bool \<times> world" where
  "CredentialManager_save P companyCode' employeeCode' password' w =
     (if \<not> isValidCompanyCode companyCode' then (False, w)
      else if \<not> isValidEmployeeCode employeeCode' then (False, w)
      else if password' = [] then (False, w)
      else
        (case CredentialManager_getOrCreateCryptoKey P w of
           (Inl e, w1) \<Rightarrow> (False, w1)
         | (Inr cryptoKey, w1) \<Rightarrow>
             (case CredentialManager_encryptPassword P password' cryptoKey w1 of
                (Inl e, w2) \<Rightarrow> (False, w2)
              | (Inr (encrypted, iv), w2) \<Rightarrow>
                  (case local_set
                          [(CredentialManager_STORAGE_KEY_COMPANY, JStr companyCode'),
                           (CredentialManager_STORAGE_KEY_EMPLOYEE, JStr employeeCode'),
                           (CredentialManager_STORAGE_KEY_PASSWORD, encrypted),
                           (CredentialManager_STORAGE_KEY_IV, iv)] w2 of
                     (Inl e, w3) \<Rightarrow> (False, w3)
                   | (Inr u, w3) \<Rightarrow> (True, w3)))))"

text \<open>\<open>get\<close>: \<open>None\<close> is the \<open>null\<close> it returns; the \<open>catch\<close> turns every exception into it.\<close>

definition CredentialManager_get :: "platform \<Rightarrow> world \<Rightarrow> credential option \<times> world" where
  "CredentialManager_get P w =
     (case CredentialManager_getCryptoKey P w of
        (Inl e, w1) \<Rightarrow> (None, w1)
      | (Inr None, w1) \<Rightarrow> (None, w1)
      | (Inr (Some cryptoKey), w1) \<Rightarrow>
          (case local_get [CredentialManager_STORAGE_KEY_COMPANY,
                           CredentialManager_STORAGE_KEY_EMPLOYEE,
                           CredentialManager_STORAGE_KEY_PASSWORD,
                           CredentialManager_STORAGE_KEY_IV] w1 of
             (Inl e, w2) \<Rightarrow> (None, w2)
           | (Inr result, w2) \<Rightarrow>
               (let companyCode' = result CredentialManager_STORAGE_KEY_COMPANY;
                    employeeCode' = result CredentialManager_STORAGE_KEY_EMPLOYEE;
                    encryptedPassword = result CredentialManager_STORAGE_KEY_PASSWORD;
                    iv = result CredentialManager_STORAGE_KEY_IV in
                if \<not> truthy companyCode' \<or> \<not> truthy employeeCode'
                   \<or> \<not> truthy encryptedPassword \<or> \<not> truthy iv
                then (None, w2)
                else
                  (case CredentialManager_decryptPassword P encryptedPassword iv cryptoKey of
                     Inl e \<Rightarrow> (None, w2)
                   | Inr password' \<Rightarrow>
                       (case (companyCode', employeeCode') of
                          (Some c, Some e) \<Rightarrow>
                            (Some \<lparr>companyCode = c, employeeCode = e, password = password'\<rparr>, w2)
                        | _ \<Rightarrow> (None, w2))))))"

definition CredentialManager_getSavedCodes :: "world \<Rightarrow> saved_codes option \<times> world" where
  "CredentialManager_getSavedCodes w =
     (case local_get [CredentialManager_STORAGE_KEY_COMPANY,
                      CredentialManager_STORAGE_KEY_EMPLOYEE] w of
        (Inl e, w1) \<Rightarrow> (None, w1)
      | (Inr result, w1) \<Rightarrow>
          (let companyCode' = result CredentialManager_STORAGE_KEY_COMPANY;
               employeeCode' = result CredentialManager_STORAGE_KEY_EMPLOYEE in
           if \<not> truthy companyCode' \<or> \<not> truthy employeeCode' then (None, w1)
           else
             (case (companyCode', employeeCode') of
                (Some c, Some e) \<Rightarrow> (Some \<lparr>companyCode = c, employeeCode = e\<rparr>, w1)
              | _ \<Rightarrow> (None, w1))))"

definition CredentialManager_exists :: "platform \<Rightarrow> world \<Rightarrow> bool \<times> world" where
  "CredentialManager_exists P w =
     (case CredentialManager_get P w of (credential, w1) \<Rightarrow> (credential \<noteq> None, w1))"

definition CredentialManager_clear :: "world \<Rightarrow> bool \<times> world" where
  "CredentialManager_clear w =
     (case local_remove [CredentialManager_STORAGE_KEY_COMPANY,
                         CredentialManager_STORAGE_KEY_EMPLOYEE,
                         CredentialManager_STORAGE_KEY_PASSWORD,
                         CredentialManager_STORAGE_KEY_IV] w of
        (Inl e, w1) \<Rightarrow> (False, w1)
      | (Inr u, w1) \<Rightarrow>
          (case session_remove [CredentialManager_SESSION_KEY_CRYPTO] w1 of
             (Inl e, w2) \<Rightarrow> (False, w2)
           | (Inr u', w2) \<Rightarrow> (True, w2)))"

section \<open>The service worker\<close>

definition STORAGE_KEY_COMPANY :: string where
  "STORAGE_KEY_COMPANY = ''kinrou_company_code''"

definition STORAGE_KEY_EMPLOYEE :: string where
  "STORAGE_KEY_EMPLOYEE = ''kinrou_employee_code''"

definition STORAGE_KEY_PASSWORD :: string where
  "STORAGE_KEY_PASSWORD = ''kinrou_encrypted_password''"

definition STORAGE_KEY_IV :: string where
  "STORAGE_KEY_IV = ''kinrou_password_iv''"

definition SESSION_KEY_CRYPTO :: string where
  "SESSION_KEY_CRYPTO = ''kinrou_crypto_key''"

definition getCryptoKey :: "platform \<Rightarrow> world \<Rightarrow> (exn + cryptokey option) \<times> world" where
  "getCryptoKey P w =
     (case session_get [SESSION_KEY_CRYPTO] w of
        (Inl e, w1) \<Rightarrow> (Inl e, w1)
      | (Inr result, w1) \<Rightarrow>
          (let storedKey = result SESSION_KEY_CRYPTO in
           if \<not> truthy storedKey then (Inr None, w1)
           else
             (case new_Uint8Array P storedKey of
                Inl e \<Rightarrow> (Inl e, w1)
              | Inr data \<Rightarrow> (map_sum id Some (importKey data), w1))))"

definition decryptPassword ::
    "platform \<Rightarrow> jsval option \<Rightarrow> jsval option \<Rightarrow> cryptokey \<Rightarrow> exn + jsstring" where
  "decryptPassword P encryptedData iv key =
     (case new_Uint8Array P iv of
        Inl e \<Rightarrow> Inl e
      | Inr ivBytes \<Rightarrow>
          (case new_Uint8Array P encryptedData of
             Inl e \<Rightarrow> Inl e
           | Inr dataBytes \<Rightarrow>
               (case aes_gcm_decrypt P key ivBytes dataBytes of
                  Inl e \<Rightarrow> Inl e
                | Inr decrypted \<Rightarrow> Inr (TextDecoder_decode decrypted))))"

definition getCredentials :: "platform \<Rightarrow> world \<Rightarrow> credential option \<times> world" where
  "getCredentials P w =
     (case getCryptoKey P w of
        (Inl e, w1) \<Rightarrow> (None, w1)
      | (Inr None, w1) \<Rightarrow> (None, w1)
      | (Inr (Some cryptoKey), w1) \<Rightarrow>
          (case local_get [STORAGE_KEY_COMPANY, STORAGE_KEY_EMPLOYEE,
                           STORAGE_KEY_PASSWORD, STORAGE_KEY_IV] w1 of
             (Inl e, w2) \<Rightarrow> (None, w2)
           | (Inr result, w2) \<Rightarrow>
               (let companyCode' = result STORAGE_KEY_COMPANY;
                    employeeCode' = result STORAGE_KEY_EMPLOYEE;
                    encryptedPassword = result STORAGE_KEY_PASSWORD;
                    iv = result STORAGE_KEY_IV in
                if \<not> truthy companyCode' \<or> \<not> truthy employeeCode'
                   \<or> \<not> truthy encryptedPassword \<or> \<not> truthy iv
                then (None, w2)
                else
                  (case decryptPassword P encryptedPassword iv cryptoKey of
                     Inl e \<Rightarrow> (None, w2)
                   | Inr password' \<Rightarrow>
                       (case (companyCode', employeeCode') of
                          (Some c, Some e) \<Rightarrow>
                            (Some \<lparr>companyCode = c, employeeCode = e, password = password'\<rparr>, w2)
                        | _ \<Rightarrow> (None, w2))))))"

definition getSavedCodes :: "world \<Rightarrow> saved_codes option \<times> world" where
  "getSavedCodes w =
     (case local_get [STORAGE_KEY_COMPANY, STORAGE_KEY_EMPLOYEE] w of
        (Inl e, w1) \<Rightarrow> (None, w1)
      | (Inr result, w1) \<Rightarrow>
          (let companyCode' = result STORAGE_KEY_COMPANY;
               employeeCode' = result STORAGE_KEY_EMPLOYEE in
           if \<not> truthy companyCode' \<or> \<not> truthy employeeCode' then (None, w1)
           else
             (case (companyCode', employeeCode') of
                (Some c, Some e) \<Rightarrow> (Some \<lparr>companyCode = c, employeeCode = e\<rparr>, w1)
              | _ \<Rightarrow> (None, w1))))"

subsection \<open>The access gate and the message listener\<close>

text \<open>
  Of a \<open>chrome.runtime.MessageSender\<close> the gate reads \<open>id\<close> and \<open>url\<close>; either may be
  \<open>undefined\<close>.
\<close>

record MessageSender =
  sender_id :: "jsstring option"
  sender_url :: "jsstring option"

definition startsWith :: "jsstring \<Rightarrow> jsstring \<Rightarrow> bool" where
  "startsWith s searchString = (take (length searchString) s = searchString)"

definition isValidSender :: "platform \<Rightarrow> MessageSender \<Rightarrow> bool" where
  "isValidSender P sender =
     (if sender_id sender = Some (runtime_id P) then
        (case sender_url sender of
           Some url \<Rightarrow>
             (if url \<noteq> [] then startsWith url (ascii ''https://kinrouap1.hr44.jp/'')
              else True)
         | None \<Rightarrow> True)
      else False)"

text \<open>
  What \<open>sendResponse\<close> is called with: \<open>null\<close> is one value, whoever sends it.
\<close>

datatype reply = Null | Credential credential | SavedCodes saved_codes

definition reply_credential :: "credential option \<Rightarrow> reply" where
  "reply_credential r = (case r of None \<Rightarrow> Null | Some c \<Rightarrow> Credential c)"

definition reply_codes :: "saved_codes option \<Rightarrow> reply" where
  "reply_codes r = (case r of None \<Rightarrow> Null | Some c \<Rightarrow> SavedCodes c)"

text \<open>
  \<open>message.type\<close>: a \<open>TypeError\<close> on \<open>null\<close> and \<open>undefined\<close>, the property of an object,
  \<open>undefined\<close> on every other value.
\<close>

definition message_type :: "jsval option \<Rightarrow> exn + jsval option" where
  "message_type message =
     (case message of
        None \<Rightarrow> Inl TypeError
      | Some JNull \<Rightarrow> Inl TypeError
      | Some (JObj kvs) \<Rightarrow> Inr (map_of (rev kvs) (ascii ''type''))
      | Some x \<Rightarrow> Inr None)"

text \<open>
  One run of the listener: what it passed to \<open>sendResponse\<close> (if it called it) and what it
  returned (\<open>None\<close>: \<open>undefined\<close>), or the exception it threw.
\<close>

datatype listener_result = Done "reply option" "bool option" | Thrown exn

definition onMessage ::
    "platform \<Rightarrow> jsval option \<Rightarrow> MessageSender \<Rightarrow> world \<Rightarrow> listener_result \<times> world" where
  "onMessage P message sender w =
     (if \<not> isValidSender P sender then (Done (Some Null) (Some False), w)
      else
        (case message_type message of
           Inl e \<Rightarrow> (Thrown e, w)
         | Inr ty \<Rightarrow>
             if ty = Some (JStr (ascii ''GET_CREDENTIALS'')) then
               (case getCredentials P w of
                  (r, w1) \<Rightarrow> (Done (Some (reply_credential r)) (Some True), w1))
             else if ty = Some (JStr (ascii ''GET_SAVED_CODES'')) then
               (case getSavedCodes w of
                  (r, w1) \<Rightarrow> (Done (Some (reply_codes r)) (Some True), w1))
             else (Done None None, w)))"

section \<open>Notions the statements use\<close>

text \<open>The next \<open>n\<close> storage calls complete: none of them rejects.\<close>

definition calm :: "nat \<Rightarrow> world \<Rightarrow> bool" where
  "calm n w = (True \<notin> set (take n (faults w)))"

definition same_stores :: "world \<Rightarrow> world \<Rightarrow> bool" where
  "same_stores w w' =
     (storage_local w = storage_local w' \<and> storage_session w = storage_session w')"

text \<open>AES-GCM decrypts, under the same key and nonce, what it encrypted.\<close>

definition cipher_correct :: "platform \<Rightarrow> bool" where
  "cipher_correct P =
     (\<forall>key iv data c. aes_gcm_encrypt P key iv data = Inr c \<longrightarrow>
                       aes_gcm_decrypt P key iv c = Inr data)"

text \<open>A string without unpaired surrogate code units.\<close>

fun well_formed :: "jsstring \<Rightarrow> bool" where
  "well_formed [] = True"
| "well_formed [u] = (\<not> is_lead u \<and> \<not> is_trail u)"
| "well_formed (u # v # us) =
     (if is_lead u then is_trail v \<and> well_formed us
      else \<not> is_trail u \<and> well_formed (v # us))"

text \<open>
  The bytes a stored value stands for when it is an array of integers between 0 and 255,
  which is what \<open>Array_from\<close> writes.
\<close>

definition bytes_of :: "jsval option \<Rightarrow> byte list option" where
  "bytes_of v =
     (case v of
        Some (JArr xs) \<Rightarrow>
          (case numbers_of xs of
             Some rs \<Rightarrow>
               if list_all (\<lambda>r. r = of_int \<lfloor>r\<rfloor> \<and> 0 \<le> r \<and> r \<le> 255) rs
               then Some (map ToUint8 rs) else None
           | None \<Rightarrow> None)
      | _ \<Rightarrow> None)"

text \<open>
  The stores hold what the data model allows: the session key, when there is one, is 32 raw
  bytes, and each persisted field, when there is one, is a non-empty string (the codes) or an
  array (ciphertext and nonce).
\<close>

definition key_conforms :: "world \<Rightarrow> bool" where
  "key_conforms w =
     (case storage_session w SESSION_KEY_CRYPTO of
        None \<Rightarrow> True
      | Some v \<Rightarrow> (case bytes_of (Some v) of Some data \<Rightarrow> length data = 32 | None \<Rightarrow> False))"

definition is_code :: "jsval option \<Rightarrow> bool" where
  "is_code v = (case v of None \<Rightarrow> True | Some (JStr s) \<Rightarrow> s \<noteq> [] | Some x \<Rightarrow> False)"

definition is_blob :: "jsval option \<Rightarrow> bool" where
  "is_blob v = (case v of None \<Rightarrow> True | Some (JArr xs) \<Rightarrow> True | Some x \<Rightarrow> False)"

definition fields_conform :: "world \<Rightarrow> bool" where
  "fields_conform w =
     (is_code (storage_local w STORAGE_KEY_COMPANY)
      \<and> is_code (storage_local w STORAGE_KEY_EMPLOYEE)
      \<and> is_blob (storage_local w STORAGE_KEY_PASSWORD)
      \<and> is_blob (storage_local w STORAGE_KEY_IV))"

text \<open>A Unicode scalar value: a code point that is not a surrogate.\<close>

definition scalar :: "nat \<Rightarrow> bool" where
  "scalar cp = (cp < 0x110000 \<and> \<not> (0xD800 \<le> cp \<and> cp \<le> 0xDFFF))"

text \<open>
  A platform and a world to run the model on: a cipher that prepends key and nonce to the
  plaintext and checks them on the way back, a counter for the random bytes, empty stores.
\<close>

definition demo_platform :: platform where
  "demo_platform =
     \<lparr>runtime_id = ascii ''abcdefghijklmnopabcdefghijklmnop'',
      entropy = (\<lambda>i. of_nat i),
      aes_gcm_encrypt = (\<lambda>k iv d. Inr (raw k @ iv @ d)),
      aes_gcm_decrypt = (\<lambda>k iv c.
         if take (length (raw k) + length iv) c = raw k @ iv
         then Inr (drop (length (raw k) + length iv) c) else Inl OperationError),
      exotic = (\<lambda>v. Inl TypeError)\<rparr>"

definition empty_world :: world where
  "empty_world = \<lparr>storage_local = Map.empty, storage_session = Map.empty,
                   faults = [], drawn = 0, calls = []\<rparr>"

text \<open>
  The demo world after one successful save, and the same world once the browser has wiped
  the session area, and once a later session has put another key there.
\<close>

definition saved_world :: world where
  "saved_world =
     snd (CredentialManager_save demo_platform (ascii ''123'') (ascii ''4567'') (ascii ''pw'')
            empty_world)"

definition locked_world :: world where
  "locked_world = saved_world\<lparr>storage_session := Map.empty\<rparr>"

definition rekeyed_world :: world where
  "rekeyed_world =
     saved_world\<lparr>storage_session :=
       [SESSION_KEY_CRYPTO \<mapsto> Array_from (map (entropy demo_platform) [44..<76])]\<rparr>"



text \<open>An empty world in which the third storage call rejects.\<close>

definition flaky_world :: world where
  "flaky_world = empty_world\<lparr>faults := [False, False, True]\<rparr>"



section \<open>Basic facts\<close>

subsection \<open>Storage calls\<close>

lemmas storage_keys =
  STORAGE_KEY_COMPANY_def STORAGE_KEY_EMPLOYEE_def STORAGE_KEY_PASSWORD_def
  STORAGE_KEY_IV_def SESSION_KEY_CRYPTO_def
  CredentialManager_STORAGE_KEY_COMPANY_def CredentialManager_STORAGE_KEY_EMPLOYEE_def
  CredentialManager_STORAGE_KEY_PASSWORD_def CredentialManager_STORAGE_KEY_IV_def
  CredentialManager_SESSION_KEY_CRYPTO_def

lemma called_simps [simp]:
  "storage_local (called c w) = storage_local w"
  "storage_session (called c w) = storage_session w"
  "drawn (called c w) = drawn w"
  "calls (called c w) = calls w @ [c]"
  "faults (called c w) = tl (faults w)"
  by (simp_all add: called_def)

lemma calm_Suc: "calm (Suc n) w \<Longrightarrow> \<not> rejects w \<and> calm n (called c w)"
  by (cases "faults w") (auto simp: calm_def rejects_def)

lemma calm_0 [simp]: "calm 0 w"
  by (simp add: calm_def)

lemma calm_1: "calm 1 w \<Longrightarrow> \<not> rejects w"
  using calm_Suc [of 0 w] by simp

lemma calm_2: "calm 2 w \<Longrightarrow> \<not> rejects w \<and> \<not> rejects (called c w)"
proof -
  assume "calm 2 w"
  then have "calm (Suc (Suc 0)) w" by (simp add: numeral_2_eq_2)
  from calm_Suc [OF this, of c] calm_Suc [of 0 "called c w"] show ?thesis by simp
qed

subsection \<open>Byte arrays in the stores\<close>

lemma numbers_of_bytes: "numbers_of (map (\<lambda>b. JNum (of_nat (unat b))) bs) = Some (map (\<lambda>b. of_nat (unat b)) bs)"
  by (induction bs) auto

lemma ToUint8_byte: "ToUint8 (of_nat (unat (b::byte))) = b"
proof -
  have "(of_nat (unat b) :: rat) = of_int (uint b)" by simp
  then have "\<lfloor>of_nat (unat b) :: rat\<rfloor> = uint b" by (simp only: floor_of_int)
  moreover have "(0::rat) \<le> of_nat (unat b)" by (rule of_nat_0_le_iff)
  ultimately show ?thesis unfolding ToUint8_def by (simp only: if_True word_of_int_uint)
qed

lemma new_Uint8Array_Array_from: "new_Uint8Array P (Some (Array_from bs)) = Inr bs"
  unfolding new_Uint8Array_def Array_from_def 
  by (simp only: option.case jsval.case numbers_of_bytes map_map o_def ToUint8_byte map_ident)

lemma truthy_Array_from [simp]: "truthy (Some (Array_from bs))"
  by (simp add: Array_from_def)


lemma byte_bound: "unat (b::byte) < 256"
  using unsigned_less [of b, where ?'a = nat] by simp

lemma rat_of_small_nat:
  "n < 256 \<Longrightarrow> (of_nat n :: rat) = of_int \<lfloor>of_nat n :: rat\<rfloor> \<and> (0::rat) \<le> of_nat n \<and> (of_nat n :: rat) \<le> 255"
  by simp

lemma bytes_of_Array_from: "bytes_of (Some (Array_from bs)) = Some bs"
proof -
  have "list_all (\<lambda>r::rat. r = of_int \<lfloor>r\<rfloor> \<and> 0 \<le> r \<and> r \<le> 255) (map (\<lambda>b::byte. of_nat (unat b)) bs)"
    using rat_of_small_nat [OF byte_bound]
    by (induction bs) (simp_all del: of_nat_unat)
  then show ?thesis
    unfolding bytes_of_def Array_from_def
    by (simp only: option.case jsval.case numbers_of_bytes if_True map_map o_def ToUint8_byte map_ident)
qed

lemma importKey_32: "length data = 32 \<Longrightarrow> importKey data = Inr (CryptoKey data)"
  by (simp add: importKey_def)

subsection \<open>The two read paths are the same functions\<close>

lemma decryptPassword_same: "decryptPassword = CredentialManager_decryptPassword"
  by (intro ext) (simp add: decryptPassword_def CredentialManager_decryptPassword_def)

lemma getCryptoKey_same: "getCryptoKey = CredentialManager_getCryptoKey"
  unfolding getCryptoKey_def CredentialManager_getCryptoKey_def storage_keys by (rule refl)

lemma getSavedCodes_same: "getSavedCodes = CredentialManager_getSavedCodes"
  unfolding getSavedCodes_def CredentialManager_getSavedCodes_def storage_keys by (rule refl)

lemma getCredentials_same: "getCredentials = CredentialManager_get"
  unfolding getCredentials_def CredentialManager_get_def decryptPassword_same
    getCryptoKey_same storage_keys by (rule refl)

subsection \<open>What the read operations return\<close>

lemma getCryptoKey_world:
  "snd (getCryptoKey P w) = called (SessionGet [SESSION_KEY_CRYPTO]) w"
  by (simp add: getCryptoKey_def session_get_def Let_def split: sum.splits)

lemma getCryptoKey_value:
  "\<not> rejects w \<Longrightarrow> fst (getCryptoKey P w) =
     (if \<not> truthy (storage_session w SESSION_KEY_CRYPTO) then Inr None
      else case new_Uint8Array P (storage_session w SESSION_KEY_CRYPTO) of
             Inl e \<Rightarrow> Inl e | Inr data \<Rightarrow> map_sum id Some (importKey data))"
  by (simp add: getCryptoKey_def session_get_def Let_def split: sum.splits)

lemma getCryptoKey_rejected:
  "rejects w \<Longrightarrow> fst (getCryptoKey P w) = Inl StorageError"
  by (simp add: getCryptoKey_def session_get_def)

lemma getCredentials_value:
  "fst (getCredentials P w) =
     (if rejects w \<or> \<not> truthy (storage_session w SESSION_KEY_CRYPTO) then None
      else case new_Uint8Array P (storage_session w SESSION_KEY_CRYPTO) of
        Inl e \<Rightarrow> None
      | Inr data \<Rightarrow>
          (case importKey data of
             Inl e \<Rightarrow> None
           | Inr key \<Rightarrow>
               if rejects (called (SessionGet [SESSION_KEY_CRYPTO]) w)
                  \<or> \<not> truthy (storage_local w STORAGE_KEY_COMPANY)
                  \<or> \<not> truthy (storage_local w STORAGE_KEY_EMPLOYEE)
                  \<or> \<not> truthy (storage_local w STORAGE_KEY_PASSWORD)
                  \<or> \<not> truthy (storage_local w STORAGE_KEY_IV) then None
               else
                 (case decryptPassword P (storage_local w STORAGE_KEY_PASSWORD)
                         (storage_local w STORAGE_KEY_IV) key of
                    Inl e \<Rightarrow> None
                  | Inr p \<Rightarrow> Some \<lparr>companyCode = the (storage_local w STORAGE_KEY_COMPANY),
                                    employeeCode = the (storage_local w STORAGE_KEY_EMPLOYEE),
                                    password = p\<rparr>)))"
proof (cases "getCryptoKey P w")
  case (Pair r w1)
  then have w1: "w1 = called (SessionGet [SESSION_KEY_CRYPTO]) w"
    using getCryptoKey_world [of P w] by simp
  show ?thesis
  proof (cases "rejects w")
    case True
    then show ?thesis
      using Pair getCryptoKey_rejected [of w P] by (simp add: getCredentials_def)
  next
    case False
    from getCryptoKey_value [OF False, of P] Pair
    have r: "r = (if \<not> truthy (storage_session w SESSION_KEY_CRYPTO) then Inr None
      else case new_Uint8Array P (storage_session w SESSION_KEY_CRYPTO) of
             Inl e \<Rightarrow> Inl e | Inr data \<Rightarrow> map_sum id Some (importKey data))" by simp
    show ?thesis
      unfolding getCredentials_def Pair local_get_def storage_keys
      using False r w1
      by (auto simp: Let_def storage_keys split: sum.splits option.splits)
  qed
qed


lemma get_no_key:
  "storage_session w SESSION_KEY_CRYPTO = None \<Longrightarrow>
     CredentialManager_get P w = (None, called (SessionGet [SESSION_KEY_CRYPTO]) w)"
  unfolding CredentialManager_get_def getCryptoKey_same [symmetric]
  using getCryptoKey_world [of P w] getCryptoKey_value [of w P] getCryptoKey_rejected [of w P]
  by (cases "getCryptoKey P w"; cases "rejects w") (auto split: sum.splits option.splits)

lemma getSavedCodes_value:
  "fst (getSavedCodes w) =
     (if rejects w \<or> \<not> truthy (storage_local w STORAGE_KEY_COMPANY)
         \<or> \<not> truthy (storage_local w STORAGE_KEY_EMPLOYEE) then None
      else Some \<lparr>companyCode = the (storage_local w STORAGE_KEY_COMPANY),
                  employeeCode = the (storage_local w STORAGE_KEY_EMPLOYEE)\<rparr>)"
  unfolding getSavedCodes_def local_get_def storage_keys
  by (auto simp: Let_def split: option.splits)

lemma isValidSender_iff:
  "isValidSender P s \<longleftrightarrow>
     sender_id s = Some (runtime_id P)
     \<and> (sender_url s = None \<or> sender_url s = Some []
         \<or> (\<exists>url. sender_url s = Some url \<and> startsWith url (ascii ''https://kinrouap1.hr44.jp/'')))"
  by (auto simp: isValidSender_def startsWith_def ascii_def split: option.splits)

subsection \<open>What the write operations leave behind\<close>

lemma clear_success:
  "CredentialManager_clear w = (True, w') \<Longrightarrow>
     storage_local w' = storage_local w |` (- {STORAGE_KEY_COMPANY, STORAGE_KEY_EMPLOYEE,
                                               STORAGE_KEY_PASSWORD, STORAGE_KEY_IV})
     \<and> storage_session w' = storage_session w |` (- {SESSION_KEY_CRYPTO})"
  unfolding CredentialManager_clear_def local_remove_def session_remove_def storage_keys
  by (auto split: if_splits)

lemma getOrCreate_existing:
  assumes "\<not> rejects w" "truthy (storage_session w SESSION_KEY_CRYPTO)"
  shows "CredentialManager_getOrCreateCryptoKey P w =
           ((case new_Uint8Array P (storage_session w SESSION_KEY_CRYPTO) of
               Inl e \<Rightarrow> Inl e | Inr data \<Rightarrow> importKey data),
            called (SessionGet [SESSION_KEY_CRYPTO]) w)"
  using assms unfolding CredentialManager_getOrCreateCryptoKey_def session_get_def storage_keys
  by (simp add: Let_def split: sum.splits)

lemma getOrCreate_fresh:
  assumes "\<not> rejects w" "\<not> truthy (storage_session w SESSION_KEY_CRYPTO)"
    and "\<not> rejects (called (SessionGet [SESSION_KEY_CRYPTO]) w)"
  shows "fst (CredentialManager_getOrCreateCryptoKey P w) =
           Inr (CryptoKey (map (entropy P) [drawn w ..< drawn w + 32]))"
    and "storage_session (snd (CredentialManager_getOrCreateCryptoKey P w)) =
           (storage_session w)(SESSION_KEY_CRYPTO \<mapsto>
              Array_from (map (entropy P) [drawn w ..< drawn w + 32]))"
    and "storage_local (snd (CredentialManager_getOrCreateCryptoKey P w)) = storage_local w"
  using assms
  unfolding CredentialManager_getOrCreateCryptoKey_def session_get_def session_set_def
    generateKey_def getRandomValues_def exportKey_def storage_keys
  by (simp_all add: Let_def rejects_def called_def)

lemma getOrCreate_unchanged_unless_absent:
  assumes "truthy (storage_session w SESSION_KEY_CRYPTO)"
  shows "storage_session (snd (CredentialManager_getOrCreateCryptoKey P w)) = storage_session w"
    and "drawn (snd (CredentialManager_getOrCreateCryptoKey P w)) = drawn w"
    and "storage_local (snd (CredentialManager_getOrCreateCryptoKey P w)) = storage_local w"
  using assms unfolding CredentialManager_getOrCreateCryptoKey_def session_get_def storage_keys
  by (simp_all add: Let_def split: sum.splits)

lemma getOrCreate_local:
  "storage_local (snd (CredentialManager_getOrCreateCryptoKey P w)) = storage_local w"
  unfolding CredentialManager_getOrCreateCryptoKey_def session_get_def session_set_def
    generateKey_def getRandomValues_def exportKey_def storage_keys
  by (simp add: Let_def split: sum.splits)

text \<open>After a successful call the session store holds a value that imports to the key returned.\<close>
lemma getOrCreate_success:
  assumes "CredentialManager_getOrCreateCryptoKey P w = (Inr key, w1)"
  shows "truthy (storage_session w1 SESSION_KEY_CRYPTO)
       \<and> (\<exists>data. new_Uint8Array P (storage_session w1 SESSION_KEY_CRYPTO) = Inr data
                 \<and> importKey data = Inr key)"
proof (cases "truthy (storage_session w SESSION_KEY_CRYPTO)")
  case True
  from assms have nr: "\<not> rejects w"
    unfolding CredentialManager_getOrCreateCryptoKey_def session_get_def
    by (auto split: if_splits)
  from getOrCreate_existing [OF nr True, of P] assms
  show ?thesis using True by (auto split: sum.splits)
next
  case False
  from assms have nr: "\<not> rejects w"
    unfolding CredentialManager_getOrCreateCryptoKey_def session_get_def
    by (auto split: if_splits)
  from assms False nr have nr2: "\<not> rejects (called (SessionGet [SESSION_KEY_CRYPTO]) w)"
    unfolding CredentialManager_getOrCreateCryptoKey_def session_get_def session_set_def
      generateKey_def getRandomValues_def exportKey_def storage_keys
    by (auto simp: Let_def rejects_def called_def split: if_splits list.splits)
  from getOrCreate_fresh [OF nr False nr2, of P] assms
  have k: "key = CryptoKey (map (entropy P) [drawn w ..< drawn w + 32])"
    and s: "storage_session w1 SESSION_KEY_CRYPTO = Some (Array_from (map (entropy P) [drawn w ..< drawn w + 32]))"
    by simp_all
  show ?thesis
    unfolding s k by (simp add: new_Uint8Array_Array_from importKey_32)
qed

lemma encryptPassword_success:
  assumes "CredentialManager_encryptPassword P p key w = (Inr (enc, iv), w1)"
  shows "\<exists>c ivb. enc = Array_from c \<and> iv = Array_from ivb
           \<and> aes_gcm_encrypt P key ivb (TextEncoder_encode p) = Inr c"
    and "storage_local w1 = storage_local w" and "storage_session w1 = storage_session w"
    and "faults w1 = faults w"
  using assms unfolding CredentialManager_encryptPassword_def getRandomValues_def
  by (auto simp: Let_def split: sum.splits)

lemma valid_code_nonempty:
  "isValidCompanyCode c \<Longrightarrow> c \<noteq> []" "isValidEmployeeCode e \<Longrightarrow> e \<noteq> []"
  by (auto simp: isValidCompanyCode_def isValidEmployeeCode_def)

text \<open>What a successful save leaves in the two stores.\<close>
lemma save_success:
  assumes "CredentialManager_save P c e p w = (True, w')"
  shows "isValidCompanyCode c \<and> isValidEmployeeCode e \<and> p \<noteq> []
       \<and> (\<exists>key data ct ivb.
             truthy (storage_session w' SESSION_KEY_CRYPTO)
             \<and> new_Uint8Array P (storage_session w' SESSION_KEY_CRYPTO) = Inr data
             \<and> importKey data = Inr key
             \<and> aes_gcm_encrypt P key ivb (TextEncoder_encode p) = Inr ct
             \<and> storage_local w' STORAGE_KEY_COMPANY = Some (JStr c)
             \<and> storage_local w' STORAGE_KEY_EMPLOYEE = Some (JStr e)
             \<and> storage_local w' STORAGE_KEY_PASSWORD = Some (Array_from ct)
             \<and> storage_local w' STORAGE_KEY_IV = Some (Array_from ivb))"
proof -
  from assms have v: "isValidCompanyCode c" "isValidEmployeeCode e" "p \<noteq> []"
    by (auto simp: CredentialManager_save_def split: if_splits)
  obtain r w1 where g: "CredentialManager_getOrCreateCryptoKey P w = (r, w1)"
    by (cases "CredentialManager_getOrCreateCryptoKey P w")
  with assms v obtain key where r: "r = Inr key"
    by (cases r) (auto simp: CredentialManager_save_def)
  obtain r2 w2 where en: "CredentialManager_encryptPassword P p key w1 = (r2, w2)"
    by (cases "CredentialManager_encryptPassword P p key w1")
  with assms v g r obtain enc iv where r2: "r2 = Inr (enc, iv)"
    by (cases r2) (auto simp: CredentialManager_save_def)
  from encryptPassword_success [OF en [unfolded r2]]
  obtain ct ivb where ci: "enc = Array_from ct" "iv = Array_from ivb"
      "aes_gcm_encrypt P key ivb (TextEncoder_encode p) = Inr ct"
    and st: "storage_session w2 = storage_session w1"
    by auto
  from assms v g r en r2
  have w': "storage_session w' = storage_session w2
          \<and> storage_local w' = storage_local w2 ++
               map_of (rev [(CredentialManager_STORAGE_KEY_COMPANY, JStr c),
                            (CredentialManager_STORAGE_KEY_EMPLOYEE, JStr e),
                            (CredentialManager_STORAGE_KEY_PASSWORD, enc),
                            (CredentialManager_STORAGE_KEY_IV, iv)])"
    by (auto simp: CredentialManager_save_def local_set_def split: if_splits)
  from getOrCreate_success [OF g [unfolded r]] st w'
  obtain data where k: "truthy (storage_session w' SESSION_KEY_CRYPTO)"
      "new_Uint8Array P (storage_session w' SESSION_KEY_CRYPTO) = Inr data"
      "importKey data = Inr key" by auto
  from w' ci(1,2) have f:
      "storage_local w' STORAGE_KEY_COMPANY = Some (JStr c)"
      "storage_local w' STORAGE_KEY_EMPLOYEE = Some (JStr e)"
      "storage_local w' STORAGE_KEY_PASSWORD = Some (Array_from ct)"
      "storage_local w' STORAGE_KEY_IV = Some (Array_from ivb)"
    by (simp_all add: storage_keys)
  show ?thesis using v k ci(3) f by blast
qed

subsection \<open>Text encoding\<close>

declare utf8_decode.simps [simp del]

lemma decode_ascii:
  "b \<le> 0x7F \<Longrightarrow> utf8_decode utf8_initial (b # bs) = b # utf8_decode utf8_initial bs"
  by (simp add: utf8_decode.simps utf8_initial_def)

lemma decode_lead2:
  "0xC2 \<le> b \<Longrightarrow> b \<le> 0xDF \<Longrightarrow>
     utf8_decode utf8_initial (b # bs) =
       utf8_decode \<lparr>code_point = b mod 0x20, bytes_seen = 0, bytes_needed = 1,
                    lower_boundary = 0x80, upper_boundary = 0xBF\<rparr> bs"
  by (simp add: utf8_decode.simps utf8_initial_def)

lemma decode_lead3:
  "0xE0 \<le> b \<Longrightarrow> b \<le> 0xEF \<Longrightarrow>
     utf8_decode utf8_initial (b # bs) =
       utf8_decode \<lparr>code_point = b mod 0x10, bytes_seen = 0, bytes_needed = 2,
                    lower_boundary = (if b = 0xE0 then 0xA0 else 0x80),
                    upper_boundary = (if b = 0xED then 0x9F else 0xBF)\<rparr> bs"
  by (simp add: utf8_decode.simps utf8_initial_def)

lemma decode_lead4:
  "0xF0 \<le> b \<Longrightarrow> b \<le> 0xF4 \<Longrightarrow>
     utf8_decode utf8_initial (b # bs) =
       utf8_decode \<lparr>code_point = b mod 0x8, bytes_seen = 0, bytes_needed = 3,
                    lower_boundary = (if b = 0xF0 then 0x90 else 0x80),
                    upper_boundary = (if b = 0xF4 then 0x8F else 0xBF)\<rparr> bs"
  by (simp add: utf8_decode.simps utf8_initial_def)

lemma decode_last:
  "n \<noteq> 0 \<Longrightarrow> lo \<le> b \<Longrightarrow> b \<le> hi \<Longrightarrow> k + 1 = n \<Longrightarrow>
     utf8_decode \<lparr>code_point = c, bytes_seen = k, bytes_needed = n,
                  lower_boundary = lo, upper_boundary = hi\<rparr> (b # bs) =
       (c * 0x40 + b mod 0x40) # utf8_decode utf8_initial bs"
  by (simp add: utf8_decode.simps)

lemma decode_more:
  "n \<noteq> 0 \<Longrightarrow> lo \<le> b \<Longrightarrow> b \<le> hi \<Longrightarrow> k + 1 \<noteq> n \<Longrightarrow>
     utf8_decode \<lparr>code_point = c, bytes_seen = k, bytes_needed = n,
                  lower_boundary = lo, upper_boundary = hi\<rparr> (b # bs) =
       utf8_decode \<lparr>code_point = c * 0x40 + b mod 0x40, bytes_seen = k + 1, bytes_needed = n,
                    lower_boundary = 0x80, upper_boundary = 0xBF\<rparr> bs"
  by (simp add: utf8_decode.simps)

lemma low6: "r < 64 \<Longrightarrow> (0x80 + r) mod 0x40 = (r::nat)"
  using mod_add_left_eq [of 128 64 r] by simp

lemma lead2_bits: "q < 32 \<Longrightarrow> (0xC0 + q) mod 0x20 = (q::nat)"
  using mod_add_left_eq [of 192 32 q] by simp

lemma lead3_bits: "q < 16 \<Longrightarrow> (0xE0 + q) mod 0x10 = (q::nat)"
  using mod_add_left_eq [of 224 16 q] by simp

lemma lead4_bits: "q < 8 \<Longrightarrow> (0xF0 + q) mod 0x8 = (q::nat)"
  using mod_add_left_eq [of 240 8 q] by simp

lemma utf8_one:
  assumes "scalar cp"
  shows "utf8_decode utf8_initial (utf8_encode cp @ rest) = cp # utf8_decode utf8_initial rest"
proof -
  define c0 where "c0 = cp mod 64"
  define q1 where "q1 = cp div 64"
  define c1 where "c1 = q1 mod 64"
  define q2 where "q2 = q1 div 64"
  define c2 where "c2 = q2 mod 64"
  define q3 where "q3 = q2 div 64"
  have lin: "cp = q1 * 64 + c0" "c0 < 64" "q1 = q2 * 64 + c1" "c1 < 64"
    "q2 = q3 * 64 + c2" "c2 < 64"
    by (simp_all add: c0_def q1_def c1_def q2_def c2_def q3_def)
  have "cp div 0x1000 = cp div 64 div 64" "cp div 0x40000 = cp div 64 div 64 div 64"
    by (simp_all add: div_mult2_eq [symmetric])
  then have t: "cp div 0x40 = q1" "cp mod 0x40 = c0" "cp div 0x1000 = q2"
    "cp div 0x40000 = q3"
    by (simp_all add: c0_def q1_def c1_def q2_def c2_def q3_def)
  from assms have r: "cp < 0x110000" "cp < 0xD800 \<or> 0xDFFF < cp"
    by (auto simp: scalar_def)
  consider (one) "cp < 0x80" | (two) "0x80 \<le> cp" "cp < 0x800"
    | (three) "0x800 \<le> cp" "cp < 0x10000" | (four) "0x10000 \<le> cp"
    by linarith
  then show ?thesis
  proof cases
    case one
    then show ?thesis by (simp add: utf8_encode_def decode_ascii)
  next
    case two
    have e: "utf8_encode cp = [0xC0 + q1, 0x80 + c0]"
      using two by (simp add: utf8_encode_def t)
    have q: "2 \<le> q1" "q1 < 32" using two lin by linarith+
    have b1: "0xC2 \<le> 0xC0 + q1" "0xC0 + q1 \<le> 0xDF" using q by linarith+
    have b2: "0x80 \<le> 0x80 + c0" "0x80 + c0 \<le> 0xBF" using lin by linarith+
    have v: "q1 * 0x40 + c0 = cp" using lin by simp
    show ?thesis
      unfolding e append_Cons append_Nil decode_lead2 [OF b1] lead2_bits [OF q(2)]
      by (simp only: decode_last [OF _ b2] low6 [OF lin(2)] v; simp)
  next
    case three
    have e: "utf8_encode cp = [0xE0 + q2, 0x80 + c1, 0x80 + c0]"
      using three by (simp add: utf8_encode_def t c1_def)
    have q: "q2 < 16" "q2 = 0 \<longrightarrow> 32 \<le> c1" "q2 = 13 \<longrightarrow> c1 < 32"
      using three r(2) lin by linarith+
    have b1: "0xE0 \<le> 0xE0 + q2" "0xE0 + q2 \<le> 0xEF" using q by linarith+
    have b2: "(if 0xE0 + q2 = 0xE0 then 0xA0 else 0x80) \<le> 0x80 + c1"
      "0x80 + c1 \<le> (if 0xE0 + q2 = 0xED then 0x9F else 0xBF)"
      using q lin(4) by (simp_all, linarith+)
    have b3: "0x80 \<le> 0x80 + c0" "0x80 + c0 \<le> 0xBF" using lin by linarith+
    have v: "q2 * 0x40 + c1 = q1" "q1 * 0x40 + c0 = cp" using lin by simp_all
    show ?thesis
      unfolding e append_Cons append_Nil decode_lead3 [OF b1] lead3_bits [OF q(1)]
      by (simp only: decode_more [OF _ b2] decode_last [OF _ b3] low6 [OF lin(2)]
            low6 [OF lin(4)] v; simp)
  next
    case four
    have e: "utf8_encode cp = [0xF0 + q3, 0x80 + c2, 0x80 + c1, 0x80 + c0]"
      using four by (simp add: utf8_encode_def t c1_def c2_def)
    have q: "q3 \<le> 4" "q3 = 0 \<longrightarrow> 16 \<le> c2" "q3 = 4 \<longrightarrow> c2 < 16"
      using four r(1) lin by linarith+
    then have q8: "q3 < 8" by linarith
    have b1: "0xF0 \<le> 0xF0 + q3" "0xF0 + q3 \<le> 0xF4" using q by linarith+
    have b2: "(if 0xF0 + q3 = 0xF0 then 0x90 else 0x80) \<le> 0x80 + c2"
      "0x80 + c2 \<le> (if 0xF0 + q3 = 0xF4 then 0x8F else 0xBF)"
      using q lin(6) by (simp_all, linarith+)
    have b3: "0x80 \<le> 0x80 + c1" "0x80 + c1 \<le> 0xBF" using lin by linarith+
    have b4: "0x80 \<le> 0x80 + c0" "0x80 + c0 \<le> 0xBF" using lin by linarith+
    have v: "q3 * 0x40 + c2 = q2" "q2 * 0x40 + c1 = q1" "q1 * 0x40 + c0 = cp"
      using lin by simp_all
    show ?thesis
      unfolding e append_Cons append_Nil decode_lead4 [OF b1] lead4_bits [OF q8]
      by (simp only: decode_more [OF _ b2] decode_more [OF _ b3] decode_last [OF _ b4]
            low6 [OF lin(2)] low6 [OF lin(4)] low6 [OF lin(6)] v; simp)
  qed
qed

lemma utf8_decode_Nil: "utf8_decode utf8_initial [] = []"
  by (simp add: utf8_decode.simps utf8_initial_def)

lemma utf8_round_trip:
  "list_all scalar cps \<Longrightarrow> utf8_decode utf8_initial (concat (map utf8_encode cps)) = cps"
  by (induction cps) (simp_all add: utf8_decode_Nil utf8_one)

lemma utf8_encode_bytes:
  assumes "scalar cp" "b \<in> set (utf8_encode cp)"
  shows "b < 256"
proof -
  from assms(1) have "cp < 0x110000" by (simp add: scalar_def)
  then have "cp div 0x40 < 0x20 \<or> \<not> cp < 0x800" "cp div 0x1000 < 0x10 \<or> \<not> cp < 0x10000"
    "cp div 0x40000 < 8" "cp mod 0x40 < 0x40" "cp div 0x40 mod 0x40 < 0x40"
    "cp div 0x1000 mod 0x40 < 0x40"
    by (simp_all add: div_less_iff_less_mult) 
  with assms(2) show ?thesis
    by (auto simp: utf8_encode_def split: if_splits)
qed

lemma unat_of_nat_byte: "b < 256 \<Longrightarrow> unat (of_nat b :: byte) = b"
  by (simp add: unsigned_of_nat take_bit_nat_eq_self)

lemma bytes_round_trip:
  "list_all scalar cps \<Longrightarrow>
     map unat (map of_nat (concat (map utf8_encode cps)) :: byte list) = concat (map utf8_encode cps)"
proof -
  assume "list_all scalar cps"
  then have "\<forall>b \<in> set (concat (map utf8_encode cps)). b < 256"
    by (auto simp: list_all_iff dest: utf8_encode_bytes)
  then have "map (\<lambda>b. unat (of_nat b :: byte)) (concat (map utf8_encode cps))
              = concat (map utf8_encode cps)"
    by (intro map_idI) (auto simp: unat_of_nat_byte)
  then show ?thesis by (simp add: o_def)
qed

lemma surrogate_nat:
  "is_lead u \<longleftrightarrow> 0xD800 \<le> unat u \<and> unat u \<le> 0xDBFF"
  "is_trail u \<longleftrightarrow> 0xDC00 \<le> unat u \<and> unat u \<le> 0xDFFF"
  by (simp_all add: is_lead_def is_trail_def word_le_nat_alt)

lemma unit_bound: "unat (u :: 16 word) < 0x10000"
  using unsigned_less [of u, where ?'a = nat] by simp

lemma code_points_scalar: "list_all scalar (code_points s)"
proof (induction s rule: code_points.induct)
  case 1
  then show ?case by simp
next
  case (2 u)
  then show ?case using unit_bound [of u] by (auto simp: scalar_def surrogate_nat)
next
  case (3 u v us)
  have "scalar (0x10000 + (unat u - 0xD800) * 0x400 + (unat v - 0xDC00))"
    if "is_lead u" "is_trail v"
    using that by (simp add: scalar_def surrogate_nat) linarith
  moreover have "scalar (unat u)" if "\<not> is_lead u" "\<not> is_trail u"
    using that unit_bound [of u] by (auto simp: scalar_def surrogate_nat)
  moreover have "scalar 0xFFFD" by (simp add: scalar_def)
  ultimately show ?case using 3 by auto
qed

lemma utf16_unit: "\<not> is_lead u \<Longrightarrow> \<not> is_trail u \<Longrightarrow> utf16_units (unat u) = [u]"
  using unit_bound [of u] by (simp add: utf16_units_def)

lemma utf16_pair:
  assumes "is_lead u" "is_trail v"
  shows "utf16_units (0x10000 + (unat u - 0xD800) * 0x400 + (unat v - 0xDC00)) = [u, v]"
proof -
  define h where "h = unat u - 0xD800"
  define l where "l = unat v - 0xDC00"
  from assms have hl: "l < 0x400" "0xD800 + h = unat u" "0xDC00 + l = unat v"
    unfolding h_def l_def surrogate_nat by linarith+
  have "(h * 0x400 + l) div 0x400 = h" "(h * 0x400 + l) mod 0x400 = l"
    using hl(1) by simp_all
  then have "utf16_units (0x10000 + h * 0x400 + l) = [of_nat (0xD800 + h), of_nat (0xDC00 + l)]"
    by (simp add: utf16_units_def add.assoc)
  then show ?thesis
    unfolding hl(2,3) h_def [symmetric] l_def [symmetric] by simp
qed

lemma utf16_round_trip: "well_formed s \<Longrightarrow> concat (map utf16_units (code_points s)) = s"
proof (induction s rule: code_points.induct)
  case 1
  then show ?case by simp
next
  case (2 u)
  then show ?case by (simp add: utf16_unit)
next
  case (3 u v us)
  show ?case
  proof (cases "is_lead u")
    case True
    with 3 show ?thesis by (simp add: utf16_pair)
  next
    case False
    with 3 show ?thesis by (simp add: utf16_unit)
  qed
qed

lemma unat_bom: "unat (u :: 16 word) = 0xFEFF \<longleftrightarrow> u = 0xFEFF"
  by (simp add: word_unat_eq_iff)

lemma no_bom:
  assumes "s = [] \<or> hd s \<noteq> 0xFEFF"
  shows "strip_bom (code_points s) = code_points s"
proof (cases s rule: code_points.cases)
  case 1
  then show ?thesis by (simp add: strip_bom_def)
next
  case (2 u)
  with assms have "unat u \<noteq> 0xFEFF"
    by (simp add: unat_bom)
  with 2 show ?thesis by (simp add: strip_bom_def)
next
  case (3 u v us)
  with assms have "unat u \<noteq> 0xFEFF"
    by (simp add: unat_bom)
  with 3 show ?thesis by (simp add: strip_bom_def)
qed

lemma text_coding:
  "TextDecoder_decode (TextEncoder_encode s) = concat (map utf16_units (strip_bom (code_points s)))"
  unfolding TextDecoder_decode_def TextEncoder_encode_def
  by (simp only: bytes_round_trip [OF code_points_scalar] utf8_round_trip [OF code_points_scalar])

lemma text_round_trip:
  "well_formed s \<Longrightarrow> s = [] \<or> hd s \<noteq> 0xFEFF \<Longrightarrow> TextDecoder_decode (TextEncoder_encode s) = s"
  by (simp only: text_coding no_bom utf16_round_trip)

subsection \<open>Reading back what was saved\<close>

lemma cipher_correct_demo: "cipher_correct demo_platform"
  by (simp add: cipher_correct_def demo_platform_def)

lemma decrypt_stored:
  assumes "cipher_correct P" "aes_gcm_encrypt P key ivb data = Inr ct"
  shows "decryptPassword P (Some (Array_from ct)) (Some (Array_from ivb)) key
           = Inr (TextDecoder_decode data)"
  using assms unfolding decryptPassword_def new_Uint8Array_Array_from cipher_correct_def
  by simp

lemma get_after_save:
  assumes "cipher_correct P"
    and "CredentialManager_save P c e p w = (True, w1)"
    and "storage_local w2 = storage_local w1"
    and "storage_session w2 SESSION_KEY_CRYPTO = storage_session w1 SESSION_KEY_CRYPTO"
    and "calm 2 w2"
  shows "fst (getCredentials P w2) =
           Some \<lparr>companyCode = JStr c, employeeCode = JStr e,
                 password = TextDecoder_decode (TextEncoder_encode p)\<rparr>"
proof -
  from save_success [OF assms(2)]
  obtain key data ct ivb where v: "isValidCompanyCode c" "isValidEmployeeCode e"
    and k1: "truthy (storage_session w1 SESSION_KEY_CRYPTO)"
      "new_Uint8Array P (storage_session w1 SESSION_KEY_CRYPTO) = Inr data"
      "importKey data = Inr key"
    and en: "aes_gcm_encrypt P key ivb (TextEncoder_encode p) = Inr ct"
    and f1: "storage_local w1 STORAGE_KEY_COMPANY = Some (JStr c)"
      "storage_local w1 STORAGE_KEY_EMPLOYEE = Some (JStr e)"
      "storage_local w1 STORAGE_KEY_PASSWORD = Some (Array_from ct)"
      "storage_local w1 STORAGE_KEY_IV = Some (Array_from ivb)"
    by blast
  note k = k1 [folded assms(4)] and f = f1 [folded assms(3)]
  note ne = valid_code_nonempty(1) [OF v(1)] valid_code_nonempty(2) [OF v(2)]
  from calm_2 [OF assms(5), of "SessionGet [SESSION_KEY_CRYPTO]"]
  show ?thesis
    unfolding getCredentials_value
    by (simp add: k f ne decrypt_stored [OF assms(1) en])
qed





subsection \<open>The demo run\<close>

lemmas run_defs =
  CredentialManager_save_def CredentialManager_getOrCreateCryptoKey_def
  CredentialManager_encryptPassword_def CredentialManager_clear_def
  session_get_def session_set_def session_remove_def local_set_def local_get_def local_remove_def
  generateKey_def getRandomValues_def exportKey_def rejects_def called_def calm_def
  isValidCompanyCode_def isValidEmployeeCode_def is_digit_def ascii_def
  demo_platform_def empty_world_def saved_world_def locked_world_def rekeyed_world_def
  storage_keys

lemma saved_world_run:
  "CredentialManager_save demo_platform (ascii ''123'') (ascii ''4567'') (ascii ''pw'') empty_world
     = (True, saved_world)"
  by (simp add: run_defs Let_def)

lemma saved_world_session:
  "storage_session saved_world SESSION_KEY_CRYPTO
     = Some (Array_from (map (entropy demo_platform) [0..<32]))"
  by (simp add: run_defs Let_def)

lemma saved_world_faults: "faults saved_world = []"
  by (simp add: run_defs Let_def)

lemma saved_world_fields:
  "storage_local saved_world STORAGE_KEY_COMPANY = Some (JStr (ascii ''123''))"
  "storage_local saved_world STORAGE_KEY_EMPLOYEE = Some (JStr (ascii ''4567''))"
  "storage_local saved_world STORAGE_KEY_PASSWORD =
     Some (Array_from (map (entropy demo_platform) [0..<32]
                       @ map (entropy demo_platform) [32..<44] @ TextEncoder_encode (ascii ''pw'')))"
  "storage_local saved_world STORAGE_KEY_IV = Some (Array_from (map (entropy demo_platform) [32..<44]))"
  by (simp_all add: run_defs Let_def)




lemmas text_defs =
  TextEncoder_encode_def TextDecoder_decode_def is_lead_def is_trail_def utf8_encode_def
  utf8_decode.simps utf8_initial_def strip_bom_def utf16_units_def

lemma bom_password_run:
  "fst (CredentialManager_save demo_platform (ascii ''123'') (ascii ''4567'') [0xFEFF, 0x70, 0x77]
          empty_world) = True"
  by (simp add: run_defs Let_def)

lemma bom_password_coding: "TextDecoder_decode (TextEncoder_encode [0xFEFF, 0x70, 0x77]) = [0x70, 0x77]"
  by (simp add: text_defs)

lemma surrogate_password_coding: "TextDecoder_decode (TextEncoder_encode [0xD800, 0x70]) = [0xFFFD, 0x70]"
  by (simp add: text_defs)




lemma bom_only_coding: "TextDecoder_decode (TextEncoder_encode [0xFEFF]) = []"
  by (simp add: text_defs)

section \<open>The claims\<close>

subsection \<open>C1: save, then get\<close>

text \<open>
  C1 says that after a successful \<open>save\<close>, with the session key still there, \<open>get()\<close>
  returns the password that was saved, for every non-empty password. The code does not:
  \<open>encryptPassword\<close> writes the bytes of \<open>TextEncoder\<close>, a leading U+FEFF among them, and
  \<open>decryptPassword\<close> reads them back with \<open>new TextDecoder()\<close>, which drops a leading U+FEFF
  as a byte order mark. With a cipher that decrypts what it encrypted and storage calls that
  all complete, the saved password U+FEFF \<open>pw\<close> comes back as \<open>pw\<close>, the saved password
  U+FEFF comes back as the empty string that \<open>save\<close> itself refuses, and a saved unpaired
  surrogate comes back as U+FFFD.
\<close>

theorem save_then_get_loses_bom:
  "cipher_correct demo_platform
   \<and> isValidCompanyCode (ascii ''123'') \<and> isValidEmployeeCode (ascii ''4567'')
   \<and> fst (CredentialManager_save demo_platform (ascii ''123'') (ascii ''4567'')
             [0xFEFF, 0x70, 0x77] empty_world) = True
   \<and> fst (CredentialManager_get demo_platform
            (snd (CredentialManager_save demo_platform (ascii ''123'') (ascii ''4567'')
                    [0xFEFF, 0x70, 0x77] empty_world)))
       = Some \<lparr>companyCode = JStr (ascii ''123''), employeeCode = JStr (ascii ''4567''),
               password = [0x70, 0x77]\<rparr>
   \<and> fst (CredentialManager_save demo_platform (ascii ''123'') (ascii ''4567'')
             [0xFEFF] empty_world) = True
   \<and> fst (CredentialManager_get demo_platform
            (snd (CredentialManager_save demo_platform (ascii ''123'') (ascii ''4567'')
                    [0xFEFF] empty_world)))
       = Some \<lparr>companyCode = JStr (ascii ''123''), employeeCode = JStr (ascii ''4567''),
               password = []\<rparr>
   \<and> fst (CredentialManager_save demo_platform (ascii ''123'') (ascii ''4567'')
             [0xD800, 0x70] empty_world) = True
   \<and> fst (CredentialManager_get demo_platform
            (snd (CredentialManager_save demo_platform (ascii ''123'') (ascii ''4567'')
                    [0xD800, 0x70] empty_world)))
       = Some \<lparr>companyCode = JStr (ascii ''123''), employeeCode = JStr (ascii ''4567''),
               password = [0xFFFD, 0x70]\<rparr>
   \<and> [0x70, 0x77] \<noteq> [0xFEFF, 0x70, 0x77 :: 16 word]
   \<and> [] \<noteq> [0xFEFF :: 16 word]
   \<and> [0xFFFD, 0x70] \<noteq> [0xD800, 0x70 :: 16 word]"
proof -
  let ?run = "\<lambda>p. CredentialManager_save demo_platform (ascii ''123'') (ascii ''4567'') p empty_world"
  have v: "isValidCompanyCode (ascii ''123'')" "isValidEmployeeCode (ascii ''4567'')"
    by (simp_all add: isValidCompanyCode_def isValidEmployeeCode_def is_digit_def ascii_def)
  have r: "fst (?run [0xFEFF, 0x70, 0x77]) = True" "fst (?run [0xFEFF]) = True"
    "fst (?run [0xD800, 0x70]) = True"
    by (simp_all add: run_defs Let_def)
  have c: "calm 2 (snd (?run [0xFEFF, 0x70, 0x77]))" "calm 2 (snd (?run [0xFEFF]))"
    "calm 2 (snd (?run [0xD800, 0x70]))"
    by (simp_all add: run_defs Let_def)
  have g: "fst (CredentialManager_get demo_platform (snd (?run p)))
       = Some \<lparr>companyCode = JStr (ascii ''123''), employeeCode = JStr (ascii ''4567''),
               password = TextDecoder_decode (TextEncoder_encode p)\<rparr>"
    if "fst (?run p) = True" "calm 2 (snd (?run p))" for p
  proof -
    from that(1) have "?run p = (True, snd (?run p))" by (simp add: prod_eq_iff)
    from get_after_save [OF cipher_correct_demo this refl refl that(2)]
    show ?thesis by (simp add: getCredentials_same)
  qed
  have d: "[0x70, 0x77] \<noteq> [0xFEFF, 0x70, 0x77 :: 16 word]" "[] \<noteq> [0xFEFF :: 16 word]"
    "[0xFFFD, 0x70] \<noteq> [0xD800, 0x70 :: 16 word]"
    by simp_all
  from g [OF r(1) c(1)] g [OF r(2) c(2)] g [OF r(3) c(3)] v r d cipher_correct_demo
  show ?thesis
    unfolding bom_password_coding bom_only_coding surrogate_password_coding by blast
qed

text \<open>So what \<open>get()\<close> returns there is not the record that was saved.\<close>

theorem save_then_get_loses_bom_witness:
  "fst (CredentialManager_get demo_platform
          (snd (CredentialManager_save demo_platform (ascii ''123'') (ascii ''4567'')
                  [0xFEFF, 0x70, 0x77] empty_world)))
     \<noteq> Some \<lparr>companyCode = JStr (ascii ''123''), employeeCode = JStr (ascii ''4567''),
               password = [0xFEFF, 0x70, 0x77]\<rparr>"
  using save_then_get_loses_bom by simp

subsection \<open>C2: when get is unavailable\<close>




subsection \<open>C3: save rejects invalid input\<close>

text \<open>
  C3. When the company code is not one to five digits, or the employee code is not one to ten
  digits, or the password is empty, \<open>save\<close> returns \<open>false\<close> and the world is exactly as
  before: no storage call was made, no field written, no random byte drawn for a key.
\<close>

theorem save_rejects_invalid:
  "\<not> isValidCompanyCode c \<or> \<not> isValidEmployeeCode e \<or> p = [] \<Longrightarrow>
     CredentialManager_save P c e p w = (False, w)"
  by (auto simp: CredentialManager_save_def)

theorem save_rejects_invalid_witness:
  "\<not> isValidCompanyCode (ascii ''123456'')
   \<and> CredentialManager_save demo_platform (ascii ''123456'') (ascii ''4567'') (ascii ''pw'')
        saved_world = (False, saved_world)
   \<and> \<not> isValidCompanyCode (ascii ''12a'')
   \<and> CredentialManager_save demo_platform (ascii ''12a'') (ascii ''4567'') (ascii ''pw'')
        saved_world = (False, saved_world)
   \<and> \<not> isValidEmployeeCode (ascii ''12345678901'')
   \<and> CredentialManager_save demo_platform (ascii ''123'') (ascii ''12345678901'') (ascii ''pw'')
        empty_world = (False, empty_world)
   \<and> CredentialManager_save demo_platform (ascii ''123'') (ascii ''4567'') [] saved_world
        = (False, saved_world)"
  using
    save_rejects_invalid [of "ascii ''123456''" "ascii ''4567''" "ascii ''pw''"
      demo_platform saved_world]
    save_rejects_invalid [of "ascii ''12a''" "ascii ''4567''" "ascii ''pw''"
      demo_platform saved_world]
    save_rejects_invalid [of "ascii ''123''" "ascii ''12345678901''" "ascii ''pw''"
      demo_platform empty_world]
    save_rejects_invalid [of "ascii ''123''" "ascii ''4567''" "[]" demo_platform saved_world]
  by (simp add: isValidCompanyCode_def isValidEmployeeCode_def is_digit_def ascii_def)

subsection \<open>C4: the gate denies before any read\<close>

text \<open>
  C4. When the sender's id is not the extension's own, or the sender carries a page URL (a
  non-empty \<open>url\<close>) that does not start with \<open>https://kinrouap1.hr44.jp/\<close>, the listener
  answers \<open>null\<close> to every message, \<open>GET_CREDENTIALS\<close> and \<open>GET_SAVED_CODES\<close> among them,
  and returns \<open>false\<close>; it makes no storage call, and the answer is the same in every world,
  whether or not credentials are stored.
\<close>

theorem gate_denies_untrusted_sender:
  assumes "sender_id s \<noteq> Some (runtime_id P)
           \<or> (\<exists>url. sender_url s = Some url \<and> url \<noteq> []
                     \<and> \<not> startsWith url (ascii ''https://kinrouap1.hr44.jp/''))"
  shows "onMessage P m s w = (Done (Some Null) (Some False), w)
       \<and> fst (onMessage P m s w) = fst (onMessage P m s w')"
proof -
  from assms have "\<not> isValidSender P s"
    by (auto simp: isValidSender_def)
  then show ?thesis by (simp add: onMessage_def)
qed

theorem gate_denies_untrusted_sender_witness:
  "onMessage demo_platform (Some (JObj [(ascii ''type'', JStr (ascii ''GET_CREDENTIALS''))]))
     \<lparr>sender_id = Some (runtime_id demo_platform),
      sender_url = Some (ascii ''https://example.com/kinrou'')\<rparr> saved_world
     = (Done (Some Null) (Some False), saved_world)
   \<and> onMessage demo_platform (Some (JObj [(ascii ''type'', JStr (ascii ''GET_SAVED_CODES''))]))
     \<lparr>sender_id = Some (ascii ''ponmlkjihgfedcbaponmlkjihgfedcba''),
      sender_url = Some (ascii ''https://kinrouap1.hr44.jp/kinrou/'')\<rparr> saved_world
     = (Done (Some Null) (Some False), saved_world)"
  using gate_denies_untrusted_sender [of
      "\<lparr>sender_id = Some (runtime_id demo_platform),
        sender_url = Some (ascii ''https://example.com/kinrou'')\<rparr>" demo_platform
      "Some (JObj [(ascii ''type'', JStr (ascii ''GET_CREDENTIALS''))])" saved_world saved_world]
    gate_denies_untrusted_sender [of
      "\<lparr>sender_id = Some (ascii ''ponmlkjihgfedcbaponmlkjihgfedcba''),
        sender_url = Some (ascii ''https://kinrouap1.hr44.jp/kinrou/'')\<rparr>" demo_platform
      "Some (JObj [(ascii ''type'', JStr (ascii ''GET_SAVED_CODES''))])" saved_world saved_world]
  by (simp add: startsWith_def ascii_def demo_platform_def)

subsection \<open>C5: requests of the extension's own pages\<close>

text \<open>
  C5 says that a request of the extension's own pages is allowed whatever URL the page
  reports for itself. The gate does otherwise: a sender with the extension's own id that
  reports the URL of the extension's popup page is denied, since with the extension's id the
  gate lets a sender pass only when it reports no URL or one under the trusted prefix.
\<close>

theorem gate_denies_extension_page:
  "isValidSender demo_platform
     \<lparr>sender_id = Some (runtime_id demo_platform),
      sender_url = Some (ascii ''chrome-extension://abcdefghijklmnopabcdefghijklmnop/src/popup/popup.html'')\<rparr>
   = False"
  by (simp add: isValidSender_def startsWith_def ascii_def)

subsection \<open>C6: clear\<close>

text \<open>
  C6. When \<open>clear()\<close> returns \<open>true\<close>, none of the five items is left: the four fields are
  gone from the local area and the key from the session area; and in every world with these
  stores \<open>get()\<close> returns \<open>null\<close>, \<open>exists()\<close> returns \<open>false\<close> and \<open>getSavedCodes()\<close>
  returns \<open>null\<close>.
\<close>

theorem clear_removes_everything:
  assumes "CredentialManager_clear w = (True, w')"
  shows "storage_local w' CredentialManager_STORAGE_KEY_COMPANY = None
       \<and> storage_local w' CredentialManager_STORAGE_KEY_EMPLOYEE = None
       \<and> storage_local w' CredentialManager_STORAGE_KEY_PASSWORD = None
       \<and> storage_local w' CredentialManager_STORAGE_KEY_IV = None
       \<and> storage_session w' CredentialManager_SESSION_KEY_CRYPTO = None
       \<and> (\<forall>w''. same_stores w'' w' \<longrightarrow>
             fst (CredentialManager_get P w'') = None
             \<and> fst (CredentialManager_exists P w'') = False
             \<and> fst (CredentialManager_getSavedCodes w'') = None)"
proof -
  from clear_success [OF assms]
  have gone: "storage_local w' STORAGE_KEY_COMPANY = None"
             "storage_local w' STORAGE_KEY_EMPLOYEE = None"
             "storage_local w' STORAGE_KEY_PASSWORD = None"
             "storage_local w' STORAGE_KEY_IV = None"
             "storage_session w' SESSION_KEY_CRYPTO = None"
    by (simp_all add: restrict_map_def)
  have after: "fst (CredentialManager_get P w'') = None
             \<and> fst (CredentialManager_exists P w'') = False
             \<and> fst (CredentialManager_getSavedCodes w'') = None" if "same_stores w'' w'" for w''
  proof -
    from that gone have k: "storage_session w'' SESSION_KEY_CRYPTO = None"
      and c: "storage_local w'' STORAGE_KEY_COMPANY = None"
      by (simp_all add: same_stores_def)
    from get_no_key [OF k, of P] have g: "fst (CredentialManager_get P w'') = None" by simp
    then have "fst (CredentialManager_exists P w'') = False"
      by (simp add: CredentialManager_exists_def case_prod_beta)
    moreover have "fst (getSavedCodes w'') = None"
      using c by (simp add: getSavedCodes_value)
    then have "fst (CredentialManager_getSavedCodes w'') = None"
      using getSavedCodes_same [THEN fun_cong] by simp
    ultimately show ?thesis using g by simp
  qed
  show ?thesis using gone after by (simp add: storage_keys)
qed

theorem clear_removes_everything_witness:
  "CredentialManager_clear saved_world = (True, snd (CredentialManager_clear saved_world))
   \<and> storage_local saved_world CredentialManager_STORAGE_KEY_COMPANY = Some (JStr (ascii ''123''))
   \<and> storage_local (snd (CredentialManager_clear saved_world)) CredentialManager_STORAGE_KEY_COMPANY = None
   \<and> fst (CredentialManager_get demo_platform (snd (CredentialManager_clear saved_world))) = None
   \<and> fst (CredentialManager_exists demo_platform (snd (CredentialManager_clear saved_world))) = False
   \<and> fst (CredentialManager_getSavedCodes (snd (CredentialManager_clear saved_world))) = None"
proof -
  have ok: "CredentialManager_clear saved_world = (True, snd (CredentialManager_clear saved_world))"
    using saved_world_faults
    by (simp add: CredentialManager_clear_def local_remove_def session_remove_def rejects_def called_def)
  have before: "storage_local saved_world CredentialManager_STORAGE_KEY_COMPANY = Some (JStr (ascii ''123''))"
    by (simp add: run_defs Let_def)
  from clear_removes_everything [OF ok, of demo_platform] ok before
  show ?thesis by (simp add: same_stores_def)
qed

subsection \<open>C7: the locked state\<close>

text \<open>
  C7. After a successful save, once the session area has lost the key while the local area
  is as the save left it, \<open>get()\<close> returns \<open>null\<close>, and \<open>getSavedCodes()\<close>, when its storage
  read completes, still returns the saved pair; what \<open>getSavedCodes()\<close> returns does not
  depend on the session area at all.
\<close>

theorem locked_state:
  assumes "CredentialManager_save P c e p w = (True, w1)"
    and "storage_local w2 = storage_local w1"
    and "storage_session w2 CredentialManager_SESSION_KEY_CRYPTO = None"
  shows "fst (CredentialManager_get P w2) = None
       \<and> (calm 1 w2 \<longrightarrow>
            fst (CredentialManager_getSavedCodes w2) = Some \<lparr>companyCode = JStr c, employeeCode = JStr e\<rparr>)
       \<and> (\<forall>s. fst (CredentialManager_getSavedCodes (w2\<lparr>storage_session := s\<rparr>))
               = fst (CredentialManager_getSavedCodes w2))"
proof -
  from assms(3) have "storage_session w2 SESSION_KEY_CRYPTO = None"
    by (simp add: storage_keys)
  from get_no_key [OF this, of P] have a: "fst (CredentialManager_get P w2) = None" by simp
  from save_success [OF assms(1)] assms(2)
  have f: "storage_local w2 STORAGE_KEY_COMPANY = Some (JStr c)"
          "storage_local w2 STORAGE_KEY_EMPLOYEE = Some (JStr e)"
    and ne: "c \<noteq> []" "e \<noteq> []"
    by (auto dest: valid_code_nonempty)
  have b: "fst (CredentialManager_getSavedCodes w2) = Some \<lparr>companyCode = JStr c, employeeCode = JStr e\<rparr>"
    if "calm 1 w2"
    unfolding getSavedCodes_same [symmetric]
    using calm_1 [OF that] f ne by (simp add: getSavedCodes_value)
  have c: "fst (CredentialManager_getSavedCodes (w2\<lparr>storage_session := s\<rparr>))
               = fst (CredentialManager_getSavedCodes w2)" for s
    unfolding getSavedCodes_same [symmetric]
    by (simp add: getSavedCodes_value rejects_def)
  show ?thesis using a b c by blast
qed

theorem locked_state_witness:
  "CredentialManager_save demo_platform (ascii ''123'') (ascii ''4567'') (ascii ''pw'') empty_world
     = (True, saved_world)
   \<and> storage_session locked_world CredentialManager_SESSION_KEY_CRYPTO = None
   \<and> fst (CredentialManager_get demo_platform locked_world) = None
   \<and> fst (CredentialManager_getSavedCodes locked_world)
       = Some \<lparr>companyCode = JStr (ascii ''123''), employeeCode = JStr (ascii ''4567'')\<rparr>"
proof -
  have l: "storage_local locked_world = storage_local saved_world"
    and k: "storage_session locked_world CredentialManager_SESSION_KEY_CRYPTO = None"
    and c: "calm 1 locked_world"
    using saved_world_faults by (simp_all add: locked_world_def calm_def)
  from locked_state [OF saved_world_run l k] c saved_world_run k
  show ?thesis by simp
qed

subsection \<open>C8: getOrCreateCryptoKey keeps an existing key\<close>

text \<open>
  C8. When the session area holds key bytes and the read of it completes,
  \<open>getOrCreateCryptoKey()\<close> returns what importing exactly those bytes gives, and its only
  storage call is that read. The session area changes, or random bytes are drawn, only when
  the area held no key (nothing truthy). A call made after a successful one, on the session
  area that one left, returns the same key and leaves the area as it is. With no key
  stored, and both storage calls completing, 32 fresh random bytes become the key and are
  stored.
\<close>

theorem getOrCreateCryptoKey_keeps_key:
  "(calm 1 w \<longrightarrow> storage_session w CredentialManager_SESSION_KEY_CRYPTO = Some (Array_from data) \<longrightarrow>
      CredentialManager_getOrCreateCryptoKey P w =
        (importKey data, called (SessionGet [CredentialManager_SESSION_KEY_CRYPTO]) w))
   \<and> (storage_session (snd (CredentialManager_getOrCreateCryptoKey P w)) \<noteq> storage_session w
        \<or> drawn (snd (CredentialManager_getOrCreateCryptoKey P w)) \<noteq> drawn w \<longrightarrow>
      \<not> truthy (storage_session w CredentialManager_SESSION_KEY_CRYPTO))
   \<and> (CredentialManager_getOrCreateCryptoKey P w = (Inr key, w1) \<longrightarrow>
      (\<forall>w2. storage_session w2 = storage_session w1 \<longrightarrow> calm 1 w2 \<longrightarrow>
         fst (CredentialManager_getOrCreateCryptoKey P w2) = Inr key
         \<and> storage_session (snd (CredentialManager_getOrCreateCryptoKey P w2)) = storage_session w1))
   \<and> (calm 2 w \<longrightarrow> storage_session w CredentialManager_SESSION_KEY_CRYPTO = None \<longrightarrow>
      fst (CredentialManager_getOrCreateCryptoKey P w)
        = Inr (CryptoKey (map (entropy P) [drawn w ..< drawn w + 32]))
      \<and> storage_session (snd (CredentialManager_getOrCreateCryptoKey P w))
        = (storage_session w)(CredentialManager_SESSION_KEY_CRYPTO \<mapsto>
             Array_from (map (entropy P) [drawn w ..< drawn w + 32])))"
proof -
  have same: "CredentialManager_SESSION_KEY_CRYPTO = SESSION_KEY_CRYPTO"
    by (simp add: storage_keys)
  have a: "CredentialManager_getOrCreateCryptoKey P w =
        (importKey data, called (SessionGet [SESSION_KEY_CRYPTO]) w)"
    if "calm 1 w" "storage_session w SESSION_KEY_CRYPTO = Some (Array_from data)"
    using getOrCreate_existing [OF calm_1 [OF that(1)], of P] that(2)
    by (simp add: new_Uint8Array_Array_from)
  have b: "\<not> truthy (storage_session w SESSION_KEY_CRYPTO)"
    if "storage_session (snd (CredentialManager_getOrCreateCryptoKey P w)) \<noteq> storage_session w
        \<or> drawn (snd (CredentialManager_getOrCreateCryptoKey P w)) \<noteq> drawn w"
    using that getOrCreate_unchanged_unless_absent [of w P] by blast
  have c: "fst (CredentialManager_getOrCreateCryptoKey P w2) = Inr key
         \<and> storage_session (snd (CredentialManager_getOrCreateCryptoKey P w2)) = storage_session w1"
    if "CredentialManager_getOrCreateCryptoKey P w = (Inr key, w1)"
      "storage_session w2 = storage_session w1" "calm 1 w2" for w2
  proof -
    from getOrCreate_success [OF that(1)] that(2)
    obtain data where t: "truthy (storage_session w2 SESSION_KEY_CRYPTO)"
      and d: "new_Uint8Array P (storage_session w2 SESSION_KEY_CRYPTO) = Inr data"
      and i: "importKey data = Inr key" by auto
    from getOrCreate_existing [OF calm_1 [OF that(3)] t, of P] d i that(2)
    show ?thesis by simp
  qed
  have d: "fst (CredentialManager_getOrCreateCryptoKey P w)
        = Inr (CryptoKey (map (entropy P) [drawn w ..< drawn w + 32]))
      \<and> storage_session (snd (CredentialManager_getOrCreateCryptoKey P w))
        = (storage_session w)(SESSION_KEY_CRYPTO \<mapsto>
             Array_from (map (entropy P) [drawn w ..< drawn w + 32]))"
    if "calm 2 w" "storage_session w SESSION_KEY_CRYPTO = None"
    using getOrCreate_fresh [of w P] calm_2 [OF that(1)] that(2) by simp
  show ?thesis
    unfolding same using a b c d by blast
qed

theorem getOrCreateCryptoKey_keeps_key_witness:
  "calm 1 saved_world
   \<and> CredentialManager_getOrCreateCryptoKey demo_platform saved_world
       = (Inr (CryptoKey (map (entropy demo_platform) [0..<32])),
          called (SessionGet [CredentialManager_SESSION_KEY_CRYPTO]) saved_world)
   \<and> calm 2 empty_world
   \<and> fst (CredentialManager_getOrCreateCryptoKey demo_platform empty_world)
       = Inr (CryptoKey (map (entropy demo_platform) [0..<32]))
   \<and> fst (CredentialManager_getOrCreateCryptoKey demo_platform
            (snd (CredentialManager_getOrCreateCryptoKey demo_platform empty_world)))
       = Inr (CryptoKey (map (entropy demo_platform) [0..<32]))"
proof -
  let ?k = "map (entropy demo_platform) [0..<32]"
  have c1: "calm 1 saved_world" and c2: "calm 2 empty_world"
    and e: "storage_session empty_world CredentialManager_SESSION_KEY_CRYPTO = None"
    and d: "drawn empty_world = 0"
    using saved_world_faults by (simp_all add: calm_def empty_world_def)
  have s: "storage_session saved_world CredentialManager_SESSION_KEY_CRYPTO = Some (Array_from ?k)"
    using saved_world_session by (simp add: storage_keys)
  note t = getOrCreateCryptoKey_keeps_key [of saved_world ?k demo_platform]
  note u = getOrCreateCryptoKey_keeps_key [of empty_world _ demo_platform
      "CryptoKey ?k" "snd (CredentialManager_getOrCreateCryptoKey demo_platform empty_world)"]
  from u c2 e d have first: "fst (CredentialManager_getOrCreateCryptoKey demo_platform empty_world)
       = Inr (CryptoKey ?k)" by simp
  then have run: "CredentialManager_getOrCreateCryptoKey demo_platform empty_world
       = (Inr (CryptoKey ?k), snd (CredentialManager_getOrCreateCryptoKey demo_platform empty_world))"
    by (simp add: prod_eq_iff)
  have c3: "calm 1 (snd (CredentialManager_getOrCreateCryptoKey demo_platform empty_world))"
    by (simp add: run_defs Let_def)
  from u run c3 have again: "fst (CredentialManager_getOrCreateCryptoKey demo_platform
            (snd (CredentialManager_getOrCreateCryptoKey demo_platform empty_world)))
       = Inr (CryptoKey ?k)" by blast
  from t c1 s have "CredentialManager_getOrCreateCryptoKey demo_platform saved_world
       = (importKey ?k, called (SessionGet [CredentialManager_SESSION_KEY_CRYPTO]) saved_world)"
    by blast
  then show ?thesis using c1 c2 first again by (simp add: importKey_def)
qed

subsection \<open>C9: getCryptoKey only reads\<close>

text \<open>
  C9. \<open>getCryptoKey()\<close>, in the service worker and in \<open>CredentialManager\<close>, leaves both storage
  areas as they are and draws no random byte, whatever it returns. When its read completes, it
  returns \<open>null\<close> if no key is stored, and the key imported from the stored bytes if 32 key
  bytes are stored.
\<close>

theorem getCryptoKey_read_only:
  "same_stores (snd (getCryptoKey P w)) w
   \<and> same_stores (snd (CredentialManager_getCryptoKey P w)) w
   \<and> drawn (snd (getCryptoKey P w)) = drawn w
   \<and> drawn (snd (CredentialManager_getCryptoKey P w)) = drawn w
   \<and> (calm 1 w \<longrightarrow> storage_session w SESSION_KEY_CRYPTO = None \<longrightarrow>
        fst (getCryptoKey P w) = Inr None \<and> fst (CredentialManager_getCryptoKey P w) = Inr None)
   \<and> (calm 1 w \<longrightarrow> storage_session w SESSION_KEY_CRYPTO = Some (Array_from data) \<longrightarrow>
        length data = 32 \<longrightarrow>
        fst (getCryptoKey P w) = Inr (Some (CryptoKey data))
        \<and> fst (CredentialManager_getCryptoKey P w) = Inr (Some (CryptoKey data)))"
proof -
  have ok: "calm 1 w \<Longrightarrow> \<not> rejects w"
    using calm_Suc [of 0 w] by simp
  show ?thesis
    unfolding getCryptoKey_same [symmetric]
    by (simp add: getCryptoKey_world getCryptoKey_value same_stores_def ok
        new_Uint8Array_Array_from importKey_32)
qed

theorem getCryptoKey_read_only_witness:
  "calm 1 saved_world
   \<and> fst (getCryptoKey demo_platform saved_world)
       = Inr (Some (CryptoKey (map (entropy demo_platform) [0..<32])))
   \<and> calm 1 locked_world
   \<and> storage_session locked_world SESSION_KEY_CRYPTO = None
   \<and> fst (getCryptoKey demo_platform locked_world) = Inr None"
  using getCryptoKey_read_only [of demo_platform saved_world "map (entropy demo_platform) [0..<32]"]
    getCryptoKey_read_only [of demo_platform locked_world]
    saved_world_session saved_world_faults
  by (simp add: calm_def locked_world_def)

subsection \<open>C10: the two read paths agree\<close>

text \<open>
  C10. In every world the service worker's \<open>getCredentials()\<close> and \<open>getSavedCodes()\<close> return
  what \<open>CredentialManager.get()\<close> and \<open>CredentialManager.getSavedCodes()\<close> return, and leave
  the same world behind: the two files name the same storage keys and run the same steps.
\<close>

theorem read_paths_equivalent:
  "getCredentials P w = CredentialManager_get P w \<and>
   getSavedCodes w = CredentialManager_getSavedCodes w"
  by (simp add: getCredentials_same getSavedCodes_same)

theorem read_paths_equivalent_witness:
  "getCredentials demo_platform saved_world = CredentialManager_get demo_platform saved_world
   \<and> getSavedCodes saved_world = CredentialManager_getSavedCodes saved_world
   \<and> fst (getSavedCodes saved_world)
       = Some \<lparr>companyCode = JStr (ascii ''123''), employeeCode = JStr (ascii ''4567'')\<rparr>"
proof -
  have "fst (getSavedCodes saved_world)
       = Some \<lparr>companyCode = JStr (ascii ''123''), employeeCode = JStr (ascii ''4567'')\<rparr>"
    using saved_world_fields(1,2) saved_world_faults
    by (simp add: getSavedCodes_value rejects_def ascii_def)
  with read_paths_equivalent [of demo_platform saved_world] show ?thesis by blast
qed

section \<open>Further properties\<close>

subsection \<open>A failed save writes no field\<close>

lemma save_failure_local:
  "CredentialManager_save P c e p w = (False, w') \<Longrightarrow> storage_local w' = storage_local w"
proof -
  assume a: "CredentialManager_save P c e p w = (False, w')"
  show ?thesis
  proof (cases "\<not> isValidCompanyCode c \<or> \<not> isValidEmployeeCode e \<or> p = []")
    case True
    with a show ?thesis by (auto simp: CredentialManager_save_def split: if_splits)
  next
    case False
    obtain r w1 where g: "CredentialManager_getOrCreateCryptoKey P w = (r, w1)"
      by (cases "CredentialManager_getOrCreateCryptoKey P w")
    have l1: "storage_local w1 = storage_local w"
      using getOrCreate_local [of P w] g by simp
    show ?thesis
    proof (cases r)
      case (Inl x)
      with a False g l1 show ?thesis by (auto simp: CredentialManager_save_def)
    next
      case (Inr key)
      obtain r2 w2 where en: "CredentialManager_encryptPassword P p key w1 = (r2, w2)"
        by (cases "CredentialManager_encryptPassword P p key w1")
      have l2: "storage_local w2 = storage_local w1"
        using en unfolding CredentialManager_encryptPassword_def getRandomValues_def
        by (auto simp: Let_def split: sum.splits)
      show ?thesis
      proof (cases r2)
        case (Inl x)
        with a False g Inr en l1 l2 show ?thesis by (auto simp: CredentialManager_save_def)
      next
        case (Inr ei)
        obtain enc iv where ei: "ei = (enc, iv)" by (cases ei)
        from a False g \<open>r = Inr key\<close> en Inr ei l1 l2 show ?thesis
          by (auto simp: CredentialManager_save_def local_set_def split: if_splits)
      qed
    qed
  qed
qed

lemma getOrCreate_session:
  "storage_session (snd (CredentialManager_getOrCreateCryptoKey P w)) = storage_session w
   \<or> (\<not> truthy (storage_session w SESSION_KEY_CRYPTO)
      \<and> storage_session (snd (CredentialManager_getOrCreateCryptoKey P w)) =
          (storage_session w)(SESSION_KEY_CRYPTO \<mapsto>
             Array_from (map (entropy P) [drawn w ..< drawn w + 32])))"
  unfolding CredentialManager_getOrCreateCryptoKey_def session_get_def session_set_def
    generateKey_def getRandomValues_def exportKey_def storage_keys
  by (simp add: Let_def split: sum.splits)

lemma save_session:
  "storage_session (snd (CredentialManager_save P c e p w)) = storage_session w
   \<or> (\<not> truthy (storage_session w SESSION_KEY_CRYPTO)
      \<and> storage_session (snd (CredentialManager_save P c e p w)) =
          (storage_session w)(SESSION_KEY_CRYPTO \<mapsto>
             Array_from (map (entropy P) [drawn w ..< drawn w + 32])))"
proof -
  have "storage_session (snd (CredentialManager_save P c e p w)) = storage_session w
      \<or> storage_session (snd (CredentialManager_save P c e p w))
          = storage_session (snd (CredentialManager_getOrCreateCryptoKey P w))"
    unfolding CredentialManager_save_def CredentialManager_encryptPassword_def
      getRandomValues_def local_set_def
    by (auto simp: Let_def split: sum.splits prod.splits)
  with getOrCreate_session [of P w] show ?thesis by auto
qed

text \<open>
  When \<open>save\<close> returns \<open>false\<close>, whatever the reason, the local area is as it was: the four
  fields are written in one call or not at all. (The session area may by then hold a freshly
  minted key.)
\<close>

theorem save_failure_keeps_local:
  "CredentialManager_save P c e p w = (False, w') \<Longrightarrow> storage_local w' = storage_local w"
  by (rule save_failure_local)

theorem save_failure_keeps_local_witness:
  "fst (CredentialManager_save demo_platform (ascii ''123'') (ascii ''4567'') (ascii ''pw'')
          flaky_world) = False
   \<and> storage_local (snd (CredentialManager_save demo_platform (ascii ''123'') (ascii ''4567'')
                            (ascii ''pw'') flaky_world)) = storage_local flaky_world
   \<and> storage_session (snd (CredentialManager_save demo_platform (ascii ''123'') (ascii ''4567'')
                              (ascii ''pw'') flaky_world)) SESSION_KEY_CRYPTO
       = Some (Array_from (map (entropy demo_platform) [0..<32]))"
proof -
  let ?r = "CredentialManager_save demo_platform (ascii ''123'') (ascii ''4567'') (ascii ''pw'')
              flaky_world"
  have f: "fst ?r = False"
    and k: "storage_session (snd ?r) SESSION_KEY_CRYPTO
              = Some (Array_from (map (entropy demo_platform) [0..<32]))"
    by (simp_all add: run_defs flaky_world_def Let_def)
  then have "?r = (False, snd ?r)" by (simp add: prod_eq_iff)
  from save_failure_keeps_local [OF this] f k show ?thesis by blast
qed

subsection \<open>The operations keep the stores within the data model\<close>

text \<open>
  When the stores hold what the data model allows, they still do after \<open>save\<close> and after
  \<open>clear\<close>, whatever these return; \<open>get\<close> and \<open>getSavedCodes\<close> leave both areas as they
  are. The empty stores conform.
\<close>

theorem data_model_preserved:
  assumes "key_conforms w" "fields_conform w"
  shows "key_conforms (snd (CredentialManager_save P c e p w))
       \<and> fields_conform (snd (CredentialManager_save P c e p w))
       \<and> key_conforms (snd (CredentialManager_clear w))
       \<and> fields_conform (snd (CredentialManager_clear w))
       \<and> same_stores (snd (CredentialManager_get P w)) w
       \<and> same_stores (snd (CredentialManager_getSavedCodes w)) w"
proof -
  have k: "key_conforms (snd (CredentialManager_save P c e p w))"
    using save_session [of P c e p w] assms(1)
    by (auto simp: key_conforms_def bytes_of_Array_from)
  have f: "fields_conform (snd (CredentialManager_save P c e p w))"
  proof (cases "fst (CredentialManager_save P c e p w)")
    case False
    then have "CredentialManager_save P c e p w = (False, snd (CredentialManager_save P c e p w))"
      by (simp add: prod_eq_iff)
    from save_failure_local [OF this] assms(2) show ?thesis
      by (simp add: fields_conform_def)
  next
    case True
    then have "CredentialManager_save P c e p w = (True, snd (CredentialManager_save P c e p w))"
      by (simp add: prod_eq_iff)
    from save_success [OF this] show ?thesis
      by (auto simp: fields_conform_def is_code_def is_blob_def Array_from_def
          dest: valid_code_nonempty)
  qed
  have c: "key_conforms (snd (CredentialManager_clear w)) \<and> fields_conform (snd (CredentialManager_clear w))"
    using assms
    unfolding CredentialManager_clear_def local_remove_def session_remove_def storage_keys
      key_conforms_def fields_conform_def is_code_def is_blob_def
    by (auto simp: restrict_map_def)
  have g: "same_stores (snd (CredentialManager_get P w)) w"
    unfolding CredentialManager_get_def CredentialManager_getCryptoKey_def session_get_def
      local_get_def same_stores_def
    by (auto simp: Let_def split: sum.splits option.splits prod.splits)
  have s: "same_stores (snd (CredentialManager_getSavedCodes w)) w"
    unfolding CredentialManager_getSavedCodes_def local_get_def same_stores_def
    by (auto simp: Let_def split: sum.splits option.splits prod.splits)
  from k f c g s show ?thesis by simp
qed

theorem data_model_preserved_witness:
  "key_conforms empty_world \<and> fields_conform empty_world
   \<and> key_conforms saved_world \<and> fields_conform saved_world"
proof -
  have e: "key_conforms empty_world" "fields_conform empty_world"
    by (simp_all add: key_conforms_def fields_conform_def is_code_def is_blob_def empty_world_def)
  from data_model_preserved [OF e, of demo_platform "ascii ''123''" "ascii ''4567''" "ascii ''pw''"]
  have "key_conforms saved_world \<and> fields_conform saved_world"
    unfolding saved_world_def by blast
  with e show ?thesis by blast
qed

subsection \<open>What the gate lets through\<close>

text \<open>
  The gate lets a sender pass exactly when it has the extension's own id and reports no URL,
  an empty one, or one that starts with \<open>https://kinrouap1.hr44.jp/\<close>.
\<close>

theorem gate_allows_exactly:
  "isValidSender P s =
     (sender_id s = Some (runtime_id P)
      \<and> (sender_url s = None \<or> sender_url s = Some []
          \<or> (\<exists>url. sender_url s = Some url
                    \<and> startsWith url (ascii ''https://kinrouap1.hr44.jp/''))))"
  by (rule isValidSender_iff)

text \<open>
  To a sender the gate lets pass, the listener answers \<open>GET_CREDENTIALS\<close> with what
  \<open>getCredentials()\<close> returns and \<open>GET_SAVED_CODES\<close> with what \<open>getSavedCodes()\<close> returns,
  and returns \<open>true\<close>.
\<close>

theorem listener_serves_trusted_sender:
  assumes "isValidSender P s"
  shows "onMessage P (Some (JObj [(ascii ''type'', JStr (ascii ''GET_CREDENTIALS''))])) s w
           = (Done (Some (reply_credential (fst (getCredentials P w)))) (Some True),
              snd (getCredentials P w))
       \<and> onMessage P (Some (JObj [(ascii ''type'', JStr (ascii ''GET_SAVED_CODES''))])) s w
           = (Done (Some (reply_codes (fst (getSavedCodes w)))) (Some True),
              snd (getSavedCodes w))"
  using assms by (simp add: onMessage_def message_type_def ascii_def case_prod_beta)

theorem listener_serves_trusted_sender_witness:
  "fst (onMessage demo_platform (Some (JObj [(ascii ''type'', JStr (ascii ''GET_SAVED_CODES''))]))
     \<lparr>sender_id = Some (runtime_id demo_platform),
      sender_url = Some (ascii ''https://kinrouap1.hr44.jp/kinrou/kojin/'')\<rparr> saved_world)
     = Done (Some (SavedCodes \<lparr>companyCode = JStr (ascii ''123''),
                                employeeCode = JStr (ascii ''4567'')\<rparr>)) (Some True)"
proof -
  let ?s = "\<lparr>sender_id = Some (runtime_id demo_platform),
             sender_url = Some (ascii ''https://kinrouap1.hr44.jp/kinrou/kojin/'')\<rparr>"
  have v: "isValidSender demo_platform ?s"
    by (simp add: isValidSender_def startsWith_def ascii_def)
  have c: "fst (getSavedCodes saved_world)
       = Some \<lparr>companyCode = JStr (ascii ''123''), employeeCode = JStr (ascii ''4567'')\<rparr>"
    using saved_world_fields(1,2) saved_world_faults
    by (simp add: getSavedCodes_value rejects_def ascii_def)
  from listener_serves_trusted_sender [OF v, of saved_world] c
  show ?thesis by (simp add: reply_codes_def)
qed

subsection \<open>Passwords that survive save and get\<close>

text \<open>
  After a successful \<open>save\<close>, while the session key and the four persisted fields stay as the
  save left them, the cipher decrypts what it encrypted and the two storage reads of \<open>get\<close>
  complete, \<open>get()\<close> returns the saved codes, and as password what \<open>TextDecoder\<close> makes of
  the \<open>TextEncoder\<close> bytes of the saved one; that is the saved password itself when it has no
  unpaired surrogate and does not begin with U+FEFF.
\<close>

theorem save_then_get:
  assumes "cipher_correct P"
    and "CredentialManager_save P c e p w = (True, w1)"
    and "storage_local w2 = storage_local w1"
    and "storage_session w2 CredentialManager_SESSION_KEY_CRYPTO
           = storage_session w1 CredentialManager_SESSION_KEY_CRYPTO"
    and "calm 2 w2"
  shows "isValidCompanyCode c \<and> isValidEmployeeCode e \<and> p \<noteq> []
       \<and> fst (CredentialManager_get P w2) =
           Some \<lparr>companyCode = JStr c, employeeCode = JStr e,
                 password = TextDecoder_decode (TextEncoder_encode p)\<rparr>
       \<and> (well_formed p \<and> hd p \<noteq> 0xFEFF \<longrightarrow>
            fst (CredentialManager_get P w2) =
              Some \<lparr>companyCode = JStr c, employeeCode = JStr e, password = p\<rparr>)"
proof -
  from assms(4) have k: "storage_session w2 SESSION_KEY_CRYPTO = storage_session w1 SESSION_KEY_CRYPTO"
    by (simp add: storage_keys)
  from save_success [OF assms(2)]
  have v: "isValidCompanyCode c \<and> isValidEmployeeCode e \<and> p \<noteq> []" by blast
  from get_after_save [OF assms(1,2,3) k assms(5)]
  have g: "fst (CredentialManager_get P w2) =
           Some \<lparr>companyCode = JStr c, employeeCode = JStr e,
                 password = TextDecoder_decode (TextEncoder_encode p)\<rparr>"
    by (simp add: getCredentials_same)
  have "TextDecoder_decode (TextEncoder_encode p) = p" if "well_formed p" "hd p \<noteq> 0xFEFF"
    using that by (simp add: text_round_trip)
  with v g show ?thesis by simp
qed

theorem save_then_get_witness:
  "cipher_correct demo_platform
   \<and> CredentialManager_save demo_platform (ascii ''123'') (ascii ''4567'') (ascii ''pw'') empty_world
       = (True, saved_world)
   \<and> calm 2 saved_world \<and> well_formed (ascii ''pw'') \<and> hd (ascii ''pw'') \<noteq> 0xFEFF
   \<and> fst (CredentialManager_get demo_platform saved_world)
       = Some \<lparr>companyCode = JStr (ascii ''123''), employeeCode = JStr (ascii ''4567''),
               password = ascii ''pw''\<rparr>"
proof -
  have c: "calm 2 saved_world" using saved_world_faults by (simp add: calm_def)
  have p: "well_formed (ascii ''pw'')" "hd (ascii ''pw'') \<noteq> 0xFEFF"
    by (simp_all add: ascii_def is_lead_def is_trail_def)
  from save_then_get [OF cipher_correct_demo saved_world_run refl refl c] p
  have "fst (CredentialManager_get demo_platform saved_world)
       = Some \<lparr>companyCode = JStr (ascii ''123''), employeeCode = JStr (ascii ''4567''),
               password = ascii ''pw''\<rparr>"
    by blast
  with p cipher_correct_demo saved_world_run c show ?thesis by blast
qed

end
